theory Spec2Isabelle
  imports Complex_Main "HOL-Library.Sublist" "HOL-Library.AList"
begin

section \<open>Python strings\<close>

text \<open>
  Strings are modelled as \<open>string\<close> (lists of characters). The operations below are the
  ones the proxy uses: \<open>str.lower\<close> (on the ASCII letters), \<open>str.find\<close>, the \<open>in\<close>
  test on strings, slicing, \<open>str.replace\<close> and \<open>str.strip\<close>.
\<close>

definition ascii_uppercase :: string where
  "ascii_uppercase = ''ABCDEFGHIJKLMNOPQRSTUVWXYZ''"

definition ascii_lowercase :: string where
  "ascii_lowercase = ''abcdefghijklmnopqrstuvwxyz''"

definition lower_char :: "char \<Rightarrow> char" where
  "lower_char c = (case map_of (zip ascii_uppercase ascii_lowercase) c of
                     None \<Rightarrow> c | Some l \<Rightarrow> l)"

definition py_lower :: "string \<Rightarrow> string" where
  "py_lower s = map lower_char s"

primrec startswith :: "string \<Rightarrow> string \<Rightarrow> bool" where
  "startswith s [] = True"
| "startswith s (p # ps) = (case s of [] \<Rightarrow> False | c # cs \<Rightarrow> c = p \<and> startswith cs ps)"

text \<open>\<open>s.find(sub)\<close>: the lowest index at which \<open>sub\<close> occurs, \<open>None\<close> for Python's -1.\<close>

fun str_find :: "string \<Rightarrow> string \<Rightarrow> nat option" where
  "str_find [] sub = (if sub = [] then Some 0 else None)"
| "str_find (c # cs) sub =
     (if startswith (c # cs) sub then Some 0 else map_option Suc (str_find cs sub))"

text \<open>\<open>sub in s\<close>.\<close>

definition str_in :: "string \<Rightarrow> string \<Rightarrow> bool" where
  "str_in sub s = (str_find s sub \<noteq> None)"

text \<open>\<open>s.replace(old, new)\<close> for a non-empty \<open>old\<close>, scanning left to right.\<close>

function str_replace :: "string \<Rightarrow> string \<Rightarrow> string \<Rightarrow> string" where
  "str_replace [] old new = []"
| "str_replace (c # cs) old new =
     (if old \<noteq> [] \<and> startswith (c # cs) old
      then new @ str_replace (drop (length old) (c # cs)) old new
      else c # str_replace cs old new)"
  by pat_completeness auto
termination
  by (relation "measure (\<lambda>(s, old, new). length s)") (auto simp: neq_Nil_conv)

definition whitespace :: "char list" where
  "whitespace = [CHR '' '', CHR 0x09, CHR 0x0A, CHR 0x0B, CHR 0x0C, CHR 0x0D,
                 CHR 0x1C, CHR 0x1D, CHR 0x1E, CHR 0x1F]"

definition py_strip :: "string \<Rightarrow> string" where
  "py_strip s = rev (dropWhile (\<lambda>c. c \<in> set whitespace)
                  (rev (dropWhile (\<lambda>c. c \<in> set whitespace) s)))"

text \<open>\<open>os.path.basename\<close>: what follows the last slash.\<close>

definition basename :: "string \<Rightarrow> string" where
  "basename p = rev (takeWhile (\<lambda>c. c \<noteq> CHR ''/'') (rev p))"

section \<open>Exceptions\<close>

text \<open>
  An exception is its class and its message (\<open>str(e)\<close>). The classes of \<open>utils\<close> are
  constructors of their own. Any other class that derives from \<open>Exception\<close> is named by
  \<open>OtherError\<close>; a class that derives from \<open>BaseException\<close> only
  (\<open>asyncio.CancelledError\<close>, \<open>KeyboardInterrupt\<close>, \<open>SystemExit\<close>) is named by
  \<open>BaseOnly\<close>. Every handler of the proxy is \<open>except Exception\<close>: it catches the
  exceptions for which \<open>is_Exception\<close> holds and lets the others pass.
\<close>

datatype exn_type =
    AuthenticationError
  | PoeApiError
  | FileHandlingError
  | FileNotFoundError
  | ValueError
  | OtherError string
  | BaseOnly string

datatype exn = Exn exn_type string

fun exn_class :: "exn \<Rightarrow> exn_type" where
  "exn_class (Exn k m) = k"

fun str_exn :: "exn \<Rightarrow> string" where
  "str_exn (Exn k m) = m"

fun is_Exception :: "exn \<Rightarrow> bool" where
  "is_Exception (Exn (BaseOnly c) m) = False"
| "is_Exception (Exn k m) = True"

section \<open>poe\_client/claude\_compat.py\<close>

text \<open>
  \<open>process_claude_response\<close>: when both tags occur, the text from the first opening tag
  up to the end of the first closing tag is cut out by slicing:
  \<open>response[:thinking_start] + response[thinking_end:]\<close>.
\<close>

definition process_claude_response :: "string \<Rightarrow> string" where
  "process_claude_response response =
     (if str_in ''<thinking>'' response \<and> str_in ''</thinking>'' response
      then (let thinking_start = the (str_find response ''<thinking>'');
                thinking_end = the (str_find response ''</thinking>'') + length ''</thinking>''
            in take thinking_start response @ drop thinking_end response)
      else response)"

record error_info =
  err_code :: string
  err_message :: string

definition handle_claude_error :: "exn \<Rightarrow> error_info" where
  "handle_claude_error e =
     (let error_msg = str_exn e in
      if str_in ''thinking protocol'' (py_lower error_msg) then
        \<lparr>err_code = ''claude_thinking_protocol_error'',
         err_message = ''Error with Claude thinking protocol. Try again without the thinking parameter.''\<rparr>
      else if str_in ''context window'' (py_lower error_msg)
              \<or> str_in ''token limit'' (py_lower error_msg) then
        \<lparr>err_code = ''claude_context_window_error'',
         err_message = ''The input exceeds Claude'' @ [CHR 0x27] @ ''s context window. Try reducing the input size or using a model with a larger context window.''\<rparr>
      else
        \<lparr>err_code = ''claude_error'', err_message = ''Error with Claude: '' @ error_msg\<rparr>)"

definition claude_models :: "string list" where
  "claude_models = [''Claude-3-Opus-200k'', ''Claude-3-Sonnet-7k'',
                    ''Claude-3-Haiku-3k'', ''Claude-2-100k'']"

text \<open>The \<open>for\<close> loop of \<open>is_claude_model\<close>, returning at the first registry entry that matches.\<close>

fun is_claude_loop :: "string list \<Rightarrow> string \<Rightarrow> bool" where
  "is_claude_loop [] model_name = False"
| "is_claude_loop (claude_model # rest) model_name =
     (if str_in (py_lower claude_model) (py_lower model_name)
         \<or> str_in (py_lower model_name) (py_lower claude_model)
      then True
      else is_claude_loop rest model_name)"

definition is_claude_model :: "string \<Rightarrow> bool" where
  "is_claude_model model_name = is_claude_loop claude_models model_name"

section \<open>claude\_compat\_v2.py\<close>

definition CLAUDE_MODELS :: "string list" where
  "CLAUDE_MODELS = [''claude'', ''claude-3'', ''claude-3-opus'', ''claude-3-sonnet'',
                    ''claude-3-haiku'', ''claude-3.5-sonnet'', ''claude-3.7-sonnet'']"

text \<open>\<open>any(claude_model in model_name for claude_model in CLAUDE_MODELS)\<close> on the lowered name.\<close>

definition is_claude_model_v2 :: "string \<Rightarrow> bool" where
  "is_claude_model_v2 model_name =
     list_ex (\<lambda>claude_model. str_in claude_model (py_lower model_name)) CLAUDE_MODELS"

text \<open>
  The classification rule in the specification's words: a case-insensitive substring match
  against a registry in either direction, and the one-directional variant.
\<close>

definition spec_match_either :: "string list \<Rightarrow> string \<Rightarrow> bool" where
  "spec_match_either registry bot_name =
     (\<exists>frag \<in> set registry. sublist (py_lower frag) (py_lower bot_name)
                          \<or> sublist (py_lower bot_name) (py_lower frag))"

definition spec_match_fragment_in_name :: "string list \<Rightarrow> string \<Rightarrow> bool" where
  "spec_match_fragment_in_name registry bot_name =
     (\<exists>frag \<in> set registry. sublist (py_lower frag) (py_lower bot_name))"

text \<open>
  The thinking configuration: the dictionary with the optional keys \<open>enabled\<close>,
  \<open>template\<close> and \<open>include_in_response\<close> (\<open>DEFAULT_THINKING\<close> gives their types); a
  key that is absent is \<open>None\<close>.
\<close>

record thinking_cfg =
  enabled :: "bool option"
  template :: "string option"
  include_in_response :: "bool option"

definition DEFAULT_THINKING :: thinking_cfg where
  "DEFAULT_THINKING =
     \<lparr>enabled = Some True, template = Some ''{{thinking}}'', include_in_response = Some False\<rparr>"

text \<open>
  Python's \<open>re\<close> module is outside the repository: it is a parameter. \<open>re_compile\<close> is
  the \<open>re.error\<close> raised for a pattern, if any; \<open>re_search\<close> is the first match of the
  pattern in the text, given by its group 1; \<open>re_sub_empty\<close> is \<open>pattern.sub("", text)\<close>.
\<close>

datatype re_group = NoSuchGroup | Unmatched | Group string

record re_module =
  re_compile :: "string \<Rightarrow> exn option"
  re_search :: "string \<Rightarrow> string \<Rightarrow> re_group option"
  re_sub_empty :: "string \<Rightarrow> string \<Rightarrow> string"

record extracted =
  ex_thinking :: string
  ex_response :: string

text \<open>
  The pattern of a configuration: its template, or the default one, with the placeholder
  replaced by a lazy group.
\<close>

definition pattern_of :: "thinking_cfg \<Rightarrow> string" where
  "pattern_of t =
     str_replace (case template t of None \<Rightarrow> the (template DEFAULT_THINKING) | Some x \<Rightarrow> x)
       ''{{thinking}}'' ''(.*?)''"

definition extract_thinking_from_response ::
  "re_module \<Rightarrow> string \<Rightarrow> thinking_cfg option \<Rightarrow> exn + extracted" where
  "extract_thinking_from_response re response thinking =
     (case thinking of
        None \<Rightarrow> Inr \<lparr>ex_thinking = [], ex_response = response\<rparr>
      | Some t \<Rightarrow>
          if enabled t = Some False then Inr \<lparr>ex_thinking = [], ex_response = response\<rparr>
          else
            (let include = (case include_in_response t of
                              None \<Rightarrow> the (include_in_response DEFAULT_THINKING) | Some b \<Rightarrow> b);
                 pattern_str = pattern_of t
             in case re_compile re pattern_str of
                  Some e \<Rightarrow> Inl e
                | None \<Rightarrow>
                   (case re_search re pattern_str response of
                      None \<Rightarrow> Inr \<lparr>ex_thinking = [], ex_response = response\<rparr>
                    | Some NoSuchGroup \<Rightarrow> Inl (Exn (OtherError ''IndexError'') ''no such group'')
                    | Some Unmatched \<Rightarrow>
                        Inl (Exn (OtherError ''AttributeError'')
                               ([CHR 0x27] @ ''NoneType'' @ [CHR 0x27] @ '' object has no attribute ''
                                  @ [CHR 0x27] @ ''strip'' @ [CHR 0x27]))
                    | Some (Group g) \<Rightarrow>
                        Inr \<lparr>ex_thinking = py_strip g,
                             ex_response = (if \<not> include
                                            then py_strip (re_sub_empty re pattern_str response)
                                            else response)\<rparr>)))"

record processed =
  pr_text :: string
  pr_thinking :: string

definition process_claude_response_v2 ::
  "re_module \<Rightarrow> string \<Rightarrow> thinking_cfg option \<Rightarrow> exn + processed" where
  "process_claude_response_v2 re response thinking =
     (if thinking = None \<or> enabled (the thinking) = Some False
      then Inr \<lparr>pr_text = response, pr_thinking = []\<rparr>
      else (case extract_thinking_from_response re response thinking of
              Inl e \<Rightarrow> Inl e
            | Inr x \<Rightarrow> Inr \<lparr>pr_text = ex_response x, pr_thinking = ex_thinking x\<rparr>))"

text \<open>
  \<open>handle_claude_error\<close> of claude\_compat\_v2.py. The fallback handler is an optional
  callable; awaiting it either raises or returns a dictionary, of which only the key
  \<open>text\<close> is read. The call is inside a \<open>try\<close> whose handler is \<open>except Exception\<close>:
  an exception of the fallback that derives from \<open>Exception\<close> is turned into a result,
  any other leaves the function. The model gives the dictionary returned or the exception
  raised and, beside it, the calls made to the fallback handler, each with its outcome.
\<close>

record handled =
  h_text :: string
  h_error :: bool
  h_error_message :: string
  h_fallback_used :: bool
  h_fallback_failed :: "bool option"

type_synonym fallback_handler = "string \<Rightarrow> thinking_cfg \<Rightarrow> exn + (string \<times> string) list"

definition thinking_related_errors :: "string list" where
  "thinking_related_errors =
     [''thinking'', ''protocol'', ''template'', ''format'', ''invalid request'', ''bad request'']"

definition is_thinking_error :: "exn \<Rightarrow> bool" where
  "is_thinking_error e = list_ex (\<lambda>err. str_in err (py_lower (str_exn e))) thinking_related_errors"

definition disabled_thinking :: thinking_cfg where
  "disabled_thinking = \<lparr>enabled = Some False, template = None, include_in_response = None\<rparr>"

definition handle_claude_error_v2 ::
  "exn \<Rightarrow> fallback_handler option \<Rightarrow> string \<Rightarrow> string \<Rightarrow> thinking_cfg option
     \<Rightarrow> (exn + handled) \<times> (string \<times> thinking_cfg \<times> (exn + (string \<times> string) list)) list" where
  "handle_claude_error_v2 e fallback prompt model_name thinking =
     (let error_str = py_lower (str_exn e) in
      case fallback of
        Some fh \<Rightarrow>
          if is_thinking_error e \<and> is_claude_model_v2 model_name then
            (case fh prompt disabled_thinking of
               Inr fallback_response \<Rightarrow>
                 (Inr \<lparr>h_text = (case map_of fallback_response ''text'' of
                                    None \<Rightarrow> [] | Some t \<Rightarrow> t),
                       h_error = True,
                       h_error_message = ''Thinking protocol error: '' @ error_str
                                           @ ''. Fallback response provided.'',
                       h_fallback_used = True,
                       h_fallback_failed = None\<rparr>,
                  [(prompt, disabled_thinking, Inr fallback_response)])
             | Inl fallback_error \<Rightarrow>
                 (if is_Exception fallback_error
                  then Inr \<lparr>h_text = [],
                            h_error = True,
                            h_error_message = ''Thinking protocol error: '' @ error_str
                                                @ ''. Fallback also failed: ''
                                                @ str_exn fallback_error,
                            h_fallback_used = True,
                            h_fallback_failed = Some True\<rparr>
                  else Inl fallback_error,
                  [(prompt, disabled_thinking, Inl fallback_error)]))
          else
            (Inr \<lparr>h_text = [], h_error = True, h_error_message = ''Error: '' @ str_exn e,
                  h_fallback_used = False, h_fallback_failed = None\<rparr>, [])
      | None \<Rightarrow>
          (Inr \<lparr>h_text = [], h_error = True, h_error_message = ''Error: '' @ str_exn e,
                h_fallback_used = False, h_fallback_failed = None\<rparr>, []))"

section \<open>Message lists as heap objects\<close>

text \<open>
  A Python list of messages is a mutable object that the session store, the transport layer
  and the client share by reference. The heap maps the address of each list to its current
  content; \<open>next_ref\<close> is the next unused address.
\<close>

type_synonym ref = nat

record ProtocolMessage =
  role :: string
  content :: string

record heap =
  cells :: "ref \<Rightarrow> ProtocolMessage list"
  next_ref :: ref

definition new_list :: "heap \<Rightarrow> ref \<times> heap" where
  "new_list h = (next_ref h, h\<lparr>cells := (cells h)(next_ref h := []), next_ref := Suc (next_ref h)\<rparr>)"

definition list_append :: "heap \<Rightarrow> ref \<Rightarrow> ProtocolMessage \<Rightarrow> heap" where
  "list_append h r m = h\<lparr>cells := (cells h)(r := cells h r @ [m])\<rparr>"

section \<open>poe\_client/session.py\<close>

text \<open>
  Times are the values of \<open>time.time()\<close>, in seconds. Each operation takes the readings of
  the clock it makes, in the order in which it makes them.
\<close>

record session =
  messages :: ref
  created_at :: real
  last_accessed :: real

record SessionManager =
  sessions :: "string \<rightharpoonup> session"
  expiry_minutes :: int

definition is_session_expired :: "SessionManager \<Rightarrow> string \<Rightarrow> real \<Rightarrow> bool" where
  "is_session_expired mgr session_id now =
     (case sessions mgr session_id of
        None \<Rightarrow> True
      | Some s \<Rightarrow> (let expiry_time = last_accessed s + real_of_int (expiry_minutes mgr * 60)
                  in now > expiry_time))"

definition delete_session :: "SessionManager \<Rightarrow> string \<Rightarrow> bool \<times> SessionManager" where
  "delete_session mgr session_id =
     (if sessions mgr session_id = None then (False, mgr)
      else (True, mgr\<lparr>sessions := (sessions mgr)(session_id := None)\<rparr>))"

definition create_session ::
  "SessionManager \<Rightarrow> heap \<Rightarrow> string \<Rightarrow> real \<Rightarrow> real \<Rightarrow> string \<times> SessionManager \<times> heap" where
  "create_session mgr h uuid now1 now2 =
     (let (r, h') = new_list h
      in (uuid,
          mgr\<lparr>sessions := (sessions mgr)(uuid \<mapsto>
                 \<lparr>messages = r, created_at = now1, last_accessed = now2\<rparr>)\<rparr>,
          h'))"

text \<open>
  \<open>get_session\<close> writes the access time (first reading) and then tests the expiry (second
  reading), in the order of the source.
\<close>

definition get_session ::
  "SessionManager \<Rightarrow> string \<Rightarrow> real \<Rightarrow> real \<Rightarrow> session option \<times> SessionManager" where
  "get_session mgr session_id now1 now2 =
     (case sessions mgr session_id of
        None \<Rightarrow> (None, mgr)
      | Some s \<Rightarrow>
          (let mgr1 = mgr\<lparr>sessions := (sessions mgr)(session_id \<mapsto> s\<lparr>last_accessed := now1\<rparr>)\<rparr>
           in if is_session_expired mgr1 session_id now2
              then (None, snd (delete_session mgr1 session_id))
              else (sessions mgr1 session_id, mgr1)))"

definition get_or_create_session ::
  "SessionManager \<Rightarrow> heap \<Rightarrow> string option \<Rightarrow> string \<Rightarrow> real \<Rightarrow> real \<Rightarrow> real
     \<Rightarrow> string \<times> SessionManager \<times> heap" where
  "get_or_create_session mgr h session_id uuid now1 now2 now3 =
     (case session_id of
        None \<Rightarrow> create_session mgr h uuid now1 now2
      | Some sid \<Rightarrow>
          if sid \<noteq> [] \<and> sessions mgr sid \<noteq> None then
            (if is_session_expired mgr sid now1
             then create_session (snd (delete_session mgr sid)) h uuid now2 now3
             else (sid,
                   mgr\<lparr>sessions := (sessions mgr)(sid \<mapsto>
                          (the (sessions mgr sid))\<lparr>last_accessed := now2\<rparr>)\<rparr>,
                   h))
          else create_session mgr h uuid now1 now2)"

definition update_session ::
  "SessionManager \<Rightarrow> heap \<Rightarrow> string \<Rightarrow> string \<Rightarrow> string \<Rightarrow> real \<Rightarrow> real \<Rightarrow> real
     \<Rightarrow> bool \<times> SessionManager \<times> heap" where
  "update_session mgr h session_id user_message bot_message now1 now2 now3 =
     (case get_session mgr session_id now1 now2 of
        (None, mgr1) \<Rightarrow> (False, mgr1, h)
      | (Some s, mgr1) \<Rightarrow>
          (let h1 = list_append h (messages s) \<lparr>role = ''user'', content = user_message\<rparr>;
               h2 = list_append h1 (messages s) \<lparr>role = ''bot'', content = bot_message\<rparr>;
               mgr2 = mgr1\<lparr>sessions := (sessions mgr1)(session_id \<mapsto> s\<lparr>last_accessed := now3\<rparr>)\<rparr>
           in (True, mgr2, h2)))"

definition normalize_role :: "ProtocolMessage \<Rightarrow> ProtocolMessage" where
  "normalize_role msg = (if role msg = ''assistant'' then msg\<lparr>role := ''bot''\<rparr> else msg)"

text \<open>
  \<open>get_messages\<close> returns a list object: the address of the session's own list, or of a
  new empty list when the session is absent.
\<close>

definition get_messages ::
  "SessionManager \<Rightarrow> heap \<Rightarrow> string \<Rightarrow> real \<Rightarrow> real \<Rightarrow> ref \<times> SessionManager \<times> heap" where
  "get_messages mgr h session_id now1 now2 =
     (case get_session mgr session_id now1 now2 of
        (None, mgr1) \<Rightarrow> (let (r, h') = new_list h in (r, mgr1, h'))
      | (Some s, mgr1) \<Rightarrow>
          (messages s, mgr1,
           h\<lparr>cells := (cells h)(messages s := map normalize_role (cells h (messages s)))\<rparr>))"

section \<open>poe\_client/file\_utils.py\<close>

text \<open>
  The file system: a path that exists has a size in bytes and a content. Reading the
  content either raises, or gives bytes that decode as UTF-8 to a text (\<open>Some\<close>), or
  gives bytes that do not (\<open>None\<close>).
\<close>

record fs_node =
  size_bytes :: nat
  read_bytes :: "exn + string option"

type_synonym filesystem = "string \<rightharpoonup> fs_node"

text \<open>The prefix of the message of a missing file, in UTF-8.\<close>

definition msg_missing :: string where
  "msg_missing = [CHR 0xE6, CHR 0x96, CHR 0x87, CHR 0xE4, CHR 0xBB, CHR 0xB6, CHR 0xE4,
                  CHR 0xB8, CHR 0x8D, CHR 0xE5, CHR 0xAD, CHR 0x98, CHR 0xE5, CHR 0x9C,
                  CHR 0xA8, CHR 0x3A, CHR 0x20]"

text \<open>
  \<open>validate_file\<close>. The formatting of the message of an oversized file (\<open>fmt_too_large\<close>,
  which prints a float with two decimals) and \<open>mimetypes.guess_type\<close> are parameters.
\<close>

definition validate_file ::
  "(real \<Rightarrow> int \<Rightarrow> string) \<Rightarrow> (string \<Rightarrow> string option) \<Rightarrow> filesystem \<Rightarrow> string \<Rightarrow> int
     \<Rightarrow> exn + string \<times> string" where
  "validate_file fmt_too_large guess_type fs file_path max_size_mb =
     (case fs file_path of
        None \<Rightarrow> Inl (Exn FileNotFoundError (msg_missing @ file_path))
      | Some node \<Rightarrow>
          (let size_mb = real (size_bytes node) / (1024 * 1024)
           in if size_mb > real_of_int max_size_mb
              then Inl (Exn ValueError (fmt_too_large size_mb max_size_mb))
              else Inr (file_path,
                        (case guess_type file_path of
                           None \<Rightarrow> ''application/octet-stream''
                         | Some mime_type \<Rightarrow>
                             if mime_type = [] then ''application/octet-stream'' else mime_type))))"

section \<open>poe\_client/poe\_api.py\<close>

record PoeClient =
  api_key :: string
  debug_mode :: bool
  claude_compatible :: bool
  timeout :: int

text \<open>
  The thinking parameter of the client is a dictionary of any keys, kept as an association
  list; it is false in a condition when it is \<open>None\<close> or empty.
\<close>

datatype pyval = PyBool bool | PyInt int | PyStr string

type_synonym thinking_dict = "(string \<times> pyval) list"

definition format_thinking_protocol :: "thinking_dict option \<Rightarrow> thinking_dict option" where
  "format_thinking_protocol thinking =
     (case thinking of
        None \<Rightarrow> None
      | Some d \<Rightarrow>
          if d = [] then None
          else Some (fold (\<lambda>(k, v) formatted_thinking. AList.update k v formatted_thinking)
                       d [(''thinking'', PyBool True)]))"

text \<open>
  The external model API (\<open>fp.get_bot_response\<close>) is a parameter: for the history sent and
  the bot name it gives the texts of the chunks it streams and the exception that ends
  the stream, if one does. The stream handler is an optional callable that may raise.
\<close>

type_synonym bot_api = "ProtocolMessage list \<Rightarrow> string \<Rightarrow> string list \<times> exn option"

type_synonym stream_handler = "string \<Rightarrow> exn option"

record query_result =
  q_text :: string
  q_bot :: string
  q_error :: "string option"
  q_error_message :: "string option"

text \<open>
  What a query does: the dictionary returned or the exception raised, the heap it leaves,
  and the calls it made to the external API (each with the history sent).
\<close>

record query_outcome =
  outcome :: "exn + query_result"
  heap_after :: heap
  api_calls :: "(ProtocolMessage list \<times> string) list"

text \<open>
  The \<open>async for\<close> loop: the text accumulated so far and the exception that left the
  loop, if any.
\<close>

fun stream_loop ::
  "bool \<Rightarrow> stream_handler option \<Rightarrow> string \<Rightarrow> string list \<Rightarrow> exn option
     \<Rightarrow> string \<times> exn option" where
  "stream_loop proc handler full_response [] fin = (full_response, fin)"
| "stream_loop proc handler full_response (partial # rest) fin =
     (let chunk_text = (if proc then process_claude_response partial else partial);
          full_response' = full_response @ chunk_text
      in case handler of
           None \<Rightarrow> stream_loop proc handler full_response' rest fin
         | Some f \<Rightarrow>
             (case f chunk_text of
                Some e \<Rightarrow> (full_response', Some e)
              | None \<Rightarrow> stream_loop proc handler full_response' rest fin))"

text \<open>
  The inner \<open>try\<close> of both queries, after the stream has been consumed. Its handler
  catches what derives from \<open>Exception\<close>; any other exception leaves it as it is.
\<close>

definition finish_query :: "bool \<Rightarrow> string \<Rightarrow> string \<times> exn option \<Rightarrow> exn + query_result" where
  "finish_query proc bot_name streamed =
     (case streamed of
        (full_response, Some e) \<Rightarrow>
          if \<not> is_Exception e then Inl e
          else if proc then
            (let error_info = handle_claude_error e
             in if full_response \<noteq> []
                then Inr \<lparr>q_text = full_response, q_bot = bot_name,
                          q_error = Some (err_code error_info),
                          q_error_message = Some (err_message error_info)\<rparr>
                else Inl (Exn PoeApiError (err_message error_info)))
          else Inl e
      | (full_response, None) \<Rightarrow>
          Inr \<lparr>q_text = (if proc then process_claude_response full_response else full_response),
               q_bot = bot_name, q_error = None, q_error_message = None\<rparr>)"

text \<open>
  The outer handlers of the two queries. \<open>query_model\<close> has one, \<open>except Exception\<close>;
  \<open>query_model_with_file\<close> has \<open>except FileHandlingError\<close>, which raises again, before
  it. An exception they do not catch reaches the caller unchanged.
\<close>

definition outer_handler :: "exn \<Rightarrow> exn" where
  "outer_handler e =
     (if is_Exception e then Exn PoeApiError (''Error querying Poe model: '' @ str_exn e)
      else e)"

definition outer_handler_with_file :: "exn \<Rightarrow> exn" where
  "outer_handler_with_file e =
     (if exn_class e = FileHandlingError then e
      else if is_Exception e
      then Exn PoeApiError (''Error querying Poe model with file: '' @ str_exn e)
      else e)"

definition query_model ::
  "PoeClient \<Rightarrow> bot_api \<Rightarrow> heap \<Rightarrow> string \<Rightarrow> string \<Rightarrow> ref option \<Rightarrow> stream_handler option
     \<Rightarrow> thinking_dict option \<Rightarrow> query_outcome" where
  "query_model client api h bot_name prompt messages_arg handler thinking =
     (let (msgs, h0) = (case messages_arg of None \<Rightarrow> new_list h | Some r \<Rightarrow> (r, h));
          h1 = list_append h0 msgs \<lparr>role = ''user'', content = prompt\<rparr>;
          is_claude = is_claude_model bot_name;
          formatted_thinking =
            (if is_claude \<and> claude_compatible client \<and> thinking \<noteq> None \<and> thinking \<noteq> Some []
             then format_thinking_protocol thinking else None);
          (chunks, fin) = api (cells h1 msgs) bot_name;
          inner = finish_query (is_claude \<and> claude_compatible client) bot_name
                    (stream_loop (is_claude \<and> claude_compatible client) handler [] chunks fin)
      in \<lparr>outcome = (case inner of
                       Inl e \<Rightarrow> Inl (outer_handler e)
                     | Inr res \<Rightarrow> Inr res),
          heap_after = h1,
          api_calls = [(cells h1 msgs, bot_name)]\<rparr>)"

text \<open>
  The prompt sent with an attachment: the decoded text under a marker, or, when the bytes
  are not UTF-8, a marker with the file name.
\<close>

definition combine_prompt :: "string \<Rightarrow> string \<Rightarrow> string option \<Rightarrow> string" where
  "combine_prompt prompt file_path decoded =
     (case decoded of
        Some file_text \<Rightarrow>
          prompt @ [CHR 0x0A, CHR 0x0A] @ ''File content:'' @ [CHR 0x0A] @ file_text
      | None \<Rightarrow>
          prompt @ [CHR 0x0A, CHR 0x0A] @ ''[File attached: '' @ basename file_path @ '']'')"

definition query_model_with_file ::
  "PoeClient \<Rightarrow> bot_api \<Rightarrow> filesystem \<Rightarrow> heap \<Rightarrow> string \<Rightarrow> string \<Rightarrow> string \<Rightarrow> ref option
     \<Rightarrow> stream_handler option \<Rightarrow> thinking_dict option \<Rightarrow> query_outcome" where
  "query_model_with_file client api fs h bot_name prompt file_path messages_arg handler thinking =
     (case fs file_path of
        None \<Rightarrow>
          \<lparr>outcome = Inl (Exn FileHandlingError (''File not found: '' @ file_path)),
           heap_after = h, api_calls = []\<rparr>
      | Some node \<Rightarrow>
          (let (msgs, h0) = (case messages_arg of None \<Rightarrow> new_list h | Some r \<Rightarrow> (r, h))
           in case read_bytes node of
                Inl e \<Rightarrow>
                  \<lparr>outcome = Inl (outer_handler_with_file e),
                   heap_after = h0, api_calls = []\<rparr>
              | Inr decoded \<Rightarrow>
                  (let combined_prompt = combine_prompt prompt file_path decoded;
                       is_claude = is_claude_model bot_name;
                       formatted_thinking =
                         (if is_claude \<and> claude_compatible client
                             \<and> thinking \<noteq> None \<and> thinking \<noteq> Some []
                          then format_thinking_protocol thinking else None);
                       h1 = list_append h0 msgs \<lparr>role = ''user'', content = combined_prompt\<rparr>;
                       (chunks, fin) = api (cells h1 msgs) bot_name;
                       inner = finish_query (is_claude \<and> claude_compatible client) bot_name
                                 (stream_loop (is_claude \<and> claude_compatible client) handler []
                                    chunks fin)
                   in \<lparr>outcome =
                         (case inner of
                            Inl e \<Rightarrow> Inl (outer_handler_with_file e)
                          | Inr res \<Rightarrow> Inr res),
                       heap_after = h1,
                       api_calls = [(cells h1 msgs, bot_name)]\<rparr>)))"

section \<open>Observations and example states\<close>

text \<open>The history of a session as the store holds it: the content of its list object.\<close>

definition session_history ::
  "SessionManager \<Rightarrow> heap \<Rightarrow> string \<Rightarrow> ProtocolMessage list option" where
  "session_history mgr h sid = map_option (\<lambda>s. cells h (messages s)) (sessions mgr sid)"

text \<open>
  A store with one session, created and last accessed at time 0, with an expiry of 60
  minutes; its list object is at address 0 and holds one turn with the legacy role.
\<close>

definition ex_mgr :: SessionManager where
  "ex_mgr = \<lparr>sessions = [''s1'' \<mapsto> \<lparr>messages = 0, created_at = 0, last_accessed = 0\<rparr>],
             expiry_minutes = 60\<rparr>"

definition ex_heap :: heap where
  "ex_heap = \<lparr>cells = (\<lambda>r. [])(0 := [\<lparr>role = ''assistant'', content = ''old''\<rparr>]),
              next_ref = 1\<rparr>"

definition ex_client :: PoeClient where
  "ex_client = \<lparr>api_key = ''key'', debug_mode = False, claude_compatible = True, timeout = 60\<rparr>"

text \<open>
  The history a query sends to the external API: the list supplied (an empty one when
  none is supplied) followed by the new user turn.
\<close>

definition history_sent :: "heap \<Rightarrow> ref option \<Rightarrow> string \<Rightarrow> ProtocolMessage list" where
  "history_sent h messages_arg user_content =
     (case messages_arg of None \<Rightarrow> [] | Some r \<Rightarrow> cells h r)
       @ [\<lparr>role = ''user'', content = user_content\<rparr>]"

text \<open>A regular-expression module that finds no match, for the cases that never reach it.\<close>

definition ex_re :: re_module where
  "ex_re = \<lparr>re_compile = (\<lambda>p. None), re_search = (\<lambda>p s. None), re_sub_empty = (\<lambda>p s. s)\<rparr>"

text \<open>
  What \<open>re\<close> does, with \<open>DOTALL\<close>, for a pattern \<open>pre(.*?)suf\<close> whose \<open>pre\<close> and
  \<open>suf\<close> are plain text. A match at the start of a text needs \<open>pre\<close> there and takes
  the nearest \<open>suf\<close> after it; \<open>match_at\<close> gives group 1 and the text that follows the
  match. \<open>search\<close> takes the leftmost position with a match; \<open>sub\<close> with an empty
  replacement drops every match, scanning on from the end of each, and keeps the rest.
\<close>

definition match_at :: "string \<Rightarrow> string \<Rightarrow> string \<Rightarrow> (string \<times> string) option" where
  "match_at pre suf s =
     (if startswith s pre
      then (case str_find (drop (length pre) s) suf of
              None \<Rightarrow> None
            | Some q \<Rightarrow> Some (take q (drop (length pre) s),
                             drop (length pre + q + length suf) s))
      else None)"

fun search_delim :: "string \<Rightarrow> string \<Rightarrow> string \<Rightarrow> string option" where
  "search_delim pre suf [] = map_option fst (match_at pre suf [])"
| "search_delim pre suf (c # cs) =
     (case match_at pre suf (c # cs) of
        Some (g, rest) \<Rightarrow> Some g
      | None \<Rightarrow> search_delim pre suf cs)"

function sub_delim :: "string \<Rightarrow> string \<Rightarrow> string \<Rightarrow> string" where
  "sub_delim pre suf [] = []"
| "sub_delim pre suf (c # cs) =
     (case match_at pre suf (c # cs) of
        None \<Rightarrow> c # sub_delim pre suf cs
      | Some (g, rest) \<Rightarrow>
          if length rest < length (c # cs) then sub_delim pre suf rest
          else c # sub_delim pre suf cs)"
  by pat_completeness auto
termination
  by (relation "measure (\<lambda>(pre, suf, s). length s)") auto

text \<open>
  The module restricted to that one pattern: it is used only with configurations whose
  pattern is \<open>pre(.*?)suf\<close>.
\<close>

definition delim_re :: "string \<Rightarrow> string \<Rightarrow> re_module" where
  "delim_re pre suf =
     \<lparr>re_compile = (\<lambda>p. None),
      re_search = (\<lambda>p s. map_option Group (search_delim pre suf s)),
      re_sub_empty = (\<lambda>p s. sub_delim pre suf s)\<rparr>"

text \<open>A configuration with the tag pair as its template; the segment is not retained.\<close>

definition ex_cfg :: thinking_cfg where
  "ex_cfg = \<lparr>enabled = Some True, template = Some ''<thinking>{{thinking}}</thinking>'',
             include_in_response = Some False\<rparr>"

text \<open>A file system with one small text file and one file of 20 MiB that is not text.\<close>

definition ex_fs :: filesystem where
  "ex_fs = [''/tmp/a.txt'' \<mapsto> \<lparr>size_bytes = 5, read_bytes = Inr (Some ''hello'')\<rparr>,
            ''/tmp/big.bin'' \<mapsto> \<lparr>size_bytes = 20971520, read_bytes = Inr None\<rparr>]"

text \<open>The three calls of the second scenario of the session store, one after the other.\<close>

definition ex_listed :: "ref \<times> SessionManager \<times> heap" where
  "ex_listed = get_messages ex_mgr ex_heap ''s1'' 10 10"

definition ex_updated :: "bool \<times> SessionManager \<times> heap" where
  "ex_updated = update_session (fst (snd ex_listed)) (snd (snd ex_listed)) ''s1'' ''hi'' ''hello''
                  11 11 11"

definition ex_relisted :: "ref \<times> SessionManager \<times> heap" where
  "ex_relisted = get_messages (fst (snd ex_updated)) (snd (snd ex_updated)) ''s1'' 12 12"

section \<open>Properties of the string operations\<close>

lemmas lower_eval = py_lower_def lower_char_def ascii_uppercase_def ascii_lowercase_def

lemma startswith_prefix: "startswith s p \<longleftrightarrow> prefix p s"
  by (induction p arbitrary: s) (auto split: list.splits simp: prefix_Cons)

lemma str_find_None_iff: "str_find s sub = None \<longleftrightarrow> \<not> sublist sub s"
proof (induction s)
  case Nil
  then show ?case by simp
next
  case (Cons c cs)
  then show ?case
    by (auto simp: startswith_prefix sublist_Cons_right)
qed

lemma str_in_sublist: "str_in sub s \<longleftrightarrow> sublist sub s"
  by (simp add: str_in_def str_find_None_iff)

lemma str_find_Some_bound: "str_find s sub = Some i \<Longrightarrow> i + length sub \<le> length s"
proof (induction s arbitrary: i)
  case Nil
  then show ?case by (simp split: if_splits)
next
  case (Cons c cs)
  show ?case
  proof (cases "startswith (c # cs) sub")
    case True
    with Cons.prems have "i = 0" by simp
    moreover from True have "length sub \<le> length (c # cs)"
      by (simp only: startswith_prefix prefix_length_le)
    ultimately show ?thesis by simp
  next
    case False
    with Cons.prems obtain k where "str_find cs sub = Some k" and "i = Suc k"
      by auto
    with Cons.IH[of k] show ?thesis by simp
  qed
qed

section \<open>The session store\<close>

lemma get_session_absent:
  "sessions mgr sid = None \<Longrightarrow> get_session mgr sid now1 now2 = (None, mgr)"
  by (simp add: get_session_def)

text \<open>
  On a session that is present, the outcome of \<open>get_session\<close> depends on the two clock
  readings of the call and on the expiry only: the access time stored before the call
  plays no part.
\<close>

lemma get_session_present:
  assumes "sessions mgr sid = Some s"
  shows "get_session mgr sid now1 now2 =
     (if now2 > now1 + real_of_int (expiry_minutes mgr * 60)
      then (None, mgr\<lparr>sessions := (sessions mgr)(sid := None)\<rparr>)
      else (Some (s\<lparr>last_accessed := now1\<rparr>),
            mgr\<lparr>sessions := (sessions mgr)(sid \<mapsto> s\<lparr>last_accessed := now1\<rparr>)\<rparr>))"
  using assms by (simp add: get_session_def is_session_expired_def delete_session_def Let_def)

lemma get_session_same_reading:
  assumes "sessions mgr sid = Some s" and "0 \<le> expiry_minutes mgr"
  shows "get_session mgr sid now now =
           (Some (s\<lparr>last_accessed := now\<rparr>),
            mgr\<lparr>sessions := (sessions mgr)(sid \<mapsto> s\<lparr>last_accessed := now\<rparr>)\<rparr>)"
  using assms by (simp add: get_session_present)

text \<open>
  C1. The claim: \<open>get\<close> called at a time later than \<open>last_accessed + expiry\<close> returns
  absent and removes the session. Here the session was last accessed at time 0 with an
  expiry of 3600 seconds and \<open>get_session\<close> is called at time 4000: it returns the
  session, with its access time set to 4000, and the store still holds the id.
\<close>

theorem get_session_keeps_expired_session:
  "sessions ex_mgr ''s1'' = Some \<lparr>messages = 0, created_at = 0, last_accessed = 0\<rparr>
   \<and> (4000 :: real) > 0 + real_of_int (expiry_minutes ex_mgr * 60)
   \<and> fst (get_session ex_mgr ''s1'' 4000 4000)
        = Some \<lparr>messages = 0, created_at = 0, last_accessed = 4000\<rparr>
   \<and> sessions (snd (get_session ex_mgr ''s1'' 4000 4000)) ''s1'' \<noteq> None"
  by (simp add: ex_mgr_def get_session_def is_session_expired_def delete_session_def Let_def)

text \<open>
  The sibling path \<open>get_or_create_session\<close> tests the expiry before it writes the access
  time: at the same input it drops the session and creates a new one.
\<close>

lemma get_or_create_session_drops_expired_session:
  "fst (get_or_create_session ex_mgr ex_heap (Some ''s1'') ''fresh'' 4000 4000 4000) = ''fresh''
   \<and> sessions (fst (snd (get_or_create_session ex_mgr ex_heap (Some ''s1'') ''fresh''
                           4000 4000 4000))) ''s1'' = None"
  by (simp add: ex_mgr_def get_or_create_session_def is_session_expired_def delete_session_def
        create_session_def new_list_def Let_def)

lemma update_session_True:
  assumes "update_session mgr h sid u b t1 t2 t3 = (True, mgr', h')"
  obtains s where "sessions mgr sid = Some s"
    and "\<not> t2 > t1 + real_of_int (expiry_minutes mgr * 60)"
    and "mgr' = mgr\<lparr>sessions := (sessions mgr)(sid \<mapsto> s\<lparr>last_accessed := t3\<rparr>)\<rparr>"
    and "h' = h\<lparr>cells := (cells h)(messages s := cells h (messages s) @
            [\<lparr>role = ''user'', content = u\<rparr>, \<lparr>role = ''bot'', content = b\<rparr>])\<rparr>"
proof (cases "sessions mgr sid")
  case None
  with assms show ?thesis by (simp add: update_session_def get_session_absent)
next
  case (Some s)
  show ?thesis
  proof (cases "t2 > t1 + real_of_int (expiry_minutes mgr * 60)")
    case True
    with Some assms show ?thesis by (simp add: update_session_def get_session_present)
  next
    case False
    with Some assms have "mgr' = mgr\<lparr>sessions := (sessions mgr)(sid \<mapsto> s\<lparr>last_accessed := t3\<rparr>)\<rparr>"
      and "h' = h\<lparr>cells := (cells h)(messages s := cells h (messages s) @
            [\<lparr>role = ''user'', content = u\<rparr>, \<lparr>role = ''bot'', content = b\<rparr>])\<rparr>"
      by (auto simp add: update_session_def get_session_present list_append_def Let_def)
    with Some False that show ?thesis by blast
  qed
qed

lemma get_messages_live:
  assumes "sessions mgr sid = Some s" and "now2 \<le> now1 + real_of_int (expiry_minutes mgr * 60)"
  shows "get_messages mgr h sid now1 now2 =
     (messages s, mgr\<lparr>sessions := (sessions mgr)(sid \<mapsto> s\<lparr>last_accessed := now1\<rparr>)\<rparr>,
      h\<lparr>cells := (cells h)(messages s := map normalize_role (cells h (messages s)))\<rparr>)"
  using assms by (simp add: get_messages_def get_session_present)

lemma normalize_role_idem: "normalize_role (normalize_role m) = normalize_role m"
  by (simp add: normalize_role_def)

lemma normalize_role_not_assistant: "role (normalize_role m) \<noteq> ''assistant''"
  by (simp add: normalize_role_def)

text \<open>
  C6. For a session that is present and not expired when the calls are made: if
  \<open>list_messages\<close> returns a sequence, \<open>update\<close> then succeeds, and \<open>list_messages\<close> is
  called again, the second sequence is the first followed by a user turn with the user
  text and a turn of role \<open>bot\<close> with the model text, so it is longer by exactly 2.
\<close>

theorem update_session_appends_pair:
  assumes present: "sessions mgr sid = Some s"
    and live0: "a2 \<le> a1 + real_of_int (expiry_minutes mgr * 60)"
    and before: "get_messages mgr h sid a1 a2 = (r, mgr1, h1)"
    and upd: "update_session mgr1 h1 sid user_text model_text t1 t2 t3 = (True, mgr2, h2)"
    and live2: "c2 \<le> c1 + real_of_int (expiry_minutes mgr * 60)"
    and after: "get_messages mgr2 h2 sid c1 c2 = (r', mgr3, h3)"
  shows "length (cells h3 r') = length (cells h1 r) + 2
       \<and> cells h3 r' = cells h1 r @ [\<lparr>role = ''user'', content = user_text\<rparr>,
                                      \<lparr>role = ''bot'', content = model_text\<rparr>]"
proof -
  from get_messages_live[OF present live0, of h] before
  have r: "r = messages s"
    and mgr1: "mgr1 = mgr\<lparr>sessions := (sessions mgr)(sid \<mapsto> s\<lparr>last_accessed := a1\<rparr>)\<rparr>"
    and h1: "h1 = h\<lparr>cells := (cells h)(messages s := map normalize_role (cells h (messages s)))\<rparr>"
    by simp_all
  have s1: "sessions mgr1 sid = Some (s\<lparr>last_accessed := a1\<rparr>)" by (simp add: mgr1)
  from upd obtain s' where s': "sessions mgr1 sid = Some s'"
    and mgr2: "mgr2 = mgr1\<lparr>sessions := (sessions mgr1)(sid \<mapsto> s'\<lparr>last_accessed := t3\<rparr>)\<rparr>"
    and h2: "h2 = h1\<lparr>cells := (cells h1)(messages s' := cells h1 (messages s') @
            [\<lparr>role = ''user'', content = user_text\<rparr>, \<lparr>role = ''bot'', content = model_text\<rparr>])\<rparr>"
    by (rule update_session_True)
  from s1 s' have ms: "messages s' = messages s" by auto
  have s2: "sessions mgr2 sid = Some (s'\<lparr>last_accessed := t3\<rparr>)" by (simp add: mgr2)
  have e2: "expiry_minutes mgr2 = expiry_minutes mgr" by (simp add: mgr2 mgr1)
  from live2 e2 have live2': "c2 \<le> c1 + real_of_int (expiry_minutes mgr2 * 60)" by simp
  from get_messages_live[OF s2 live2', of h2] after
  have r': "r' = messages s"
    and h3: "h3 = h2\<lparr>cells := (cells h2)(messages s := map normalize_role (cells h2 (messages s)))\<rparr>"
    by (simp_all add: ms)
  have "cells h3 r' = map normalize_role (cells h2 (messages s))" by (simp add: h3 r')
  also have "\<dots> = map normalize_role (cells h1 (messages s)) @
       [\<lparr>role = ''user'', content = user_text\<rparr>, \<lparr>role = ''bot'', content = model_text\<rparr>]"
    by (simp add: h2 ms normalize_role_def)
  also have "map normalize_role (cells h1 (messages s)) = cells h1 (messages s)"
    by (simp add: h1 normalize_role_idem)
  finally show ?thesis by (simp add: r)
qed

lemma ex_listed_eval:
  "ex_listed =
     (0,
      ex_mgr\<lparr>sessions := (sessions ex_mgr)(''s1'' \<mapsto>
               \<lparr>messages = 0, created_at = 0, last_accessed = 10\<rparr>)\<rparr>,
      ex_heap\<lparr>cells := (cells ex_heap)(0 := [\<lparr>role = ''bot'', content = ''old''\<rparr>])\<rparr>)"
  by (simp add: ex_listed_def get_messages_def get_session_def is_session_expired_def
        ex_mgr_def ex_heap_def normalize_role_def)

text \<open>
  The second scenario of the store, on a session that already holds one turn: after
  \<open>update(id, "hi", "hello")\<close> the history ends with the user turn and the model turn.
\<close>

theorem update_session_appends_pair_witness:
  "fst ex_updated = True
   \<and> cells (snd (snd ex_relisted)) (fst ex_relisted)
       = [\<lparr>role = ''bot'', content = ''old''\<rparr>, \<lparr>role = ''user'', content = ''hi''\<rparr>,
          \<lparr>role = ''bot'', content = ''hello''\<rparr>]"
proof -
  have present: "sessions ex_mgr ''s1'' = Some \<lparr>messages = 0, created_at = 0, last_accessed = 0\<rparr>"
    by (simp add: ex_mgr_def)
  have live0: "(10::real) \<le> 10 + real_of_int (expiry_minutes ex_mgr * 60)"
    by (simp add: ex_mgr_def)
  have before: "get_messages ex_mgr ex_heap ''s1'' 10 10
                  = (fst ex_listed, fst (snd ex_listed), snd (snd ex_listed))"
    by (simp add: ex_listed_def)
  have ok: "fst ex_updated = True"
    by (simp add: ex_updated_def ex_listed_eval update_session_def get_session_def
          is_session_expired_def ex_mgr_def Let_def)
  then have upd: "update_session (fst (snd ex_listed)) (snd (snd ex_listed)) ''s1'' ''hi'' ''hello''
                    11 11 11 = (True, fst (snd ex_updated), snd (snd ex_updated))"
    by (simp add: ex_updated_def prod_eq_iff)
  have live2: "(12::real) \<le> 12 + real_of_int (expiry_minutes ex_mgr * 60)"
    by (simp add: ex_mgr_def)
  have after: "get_messages (fst (snd ex_updated)) (snd (snd ex_updated)) ''s1'' 12 12
                 = (fst ex_relisted, fst (snd ex_relisted), snd (snd ex_relisted))"
    by (simp add: ex_relisted_def)
  have first: "cells (snd (snd ex_listed)) (fst ex_listed) = [\<lparr>role = ''bot'', content = ''old''\<rparr>]"
    by (simp add: ex_listed_eval)
  from update_session_appends_pair[OF present live0 before upd live2 after] first ok
  show ?thesis by simp
qed

section \<open>The response post-processor\<close>

lemma process_claude_response_clean:
  "\<not> (str_in ''<thinking>'' y \<and> str_in ''</thinking>'' y) \<Longrightarrow> process_claude_response y = y"
  by (auto simp: process_claude_response_def)

text \<open>
  When the first opening tag ends before the first closing tag starts, one pass cuts out
  exactly the span from the start of that opening tag to the end of that closing tag.
\<close>

lemma process_claude_response_cut:
  assumes "str_find y ''<thinking>'' = Some i" and "str_find y ''</thinking>'' = Some j"
  shows "process_claude_response y = take i y @ drop (j + length ''</thinking>'') y"
  using assms by (simp add: process_claude_response_def str_in_def)

lemma process_claude_response_shortens:
  assumes "str_find y ''<thinking>'' = Some i" and "str_find y ''</thinking>'' = Some j"
    and "i + length ''<thinking>'' \<le> j"
  shows "length (process_claude_response y) < length y"
proof -
  from assms(2) have "j + length ''</thinking>'' \<le> length y"
    by (rule str_find_Some_bound)
  moreover have "process_claude_response y = take i y @ drop (j + length ''</thinking>'') y"
    using assms(1,2) by (rule process_claude_response_cut)
  ultimately show ?thesis using assms(3) by simp
qed

text \<open>
  The extraction of claude\_compat\_v2.py, applied to the response text of a pass that
  returned: the text comes back unchanged when the configuration is absent or disabled,
  when it retains the segment, or when the pattern finds no match in that text.
\<close>

lemma extract_thinking_second_pass:
  assumes first: "extract_thinking_from_response re y cfg = Inr a"
    and cond: "cfg = None \<or> enabled (the cfg) = Some False
               \<or> include_in_response (the cfg) = Some True
               \<or> re_search re (pattern_of (the cfg)) (ex_response a) = None"
  shows "\<exists>b. extract_thinking_from_response re (ex_response a) cfg = Inr b
             \<and> ex_response b = ex_response a"
proof (cases cfg)
  case None
  then show ?thesis by (simp add: extract_thinking_from_response_def)
next
  case (Some t)
  show ?thesis
  proof (cases "enabled t = Some False")
    case True
    with Some show ?thesis by (simp add: extract_thinking_from_response_def)
  next
    case False
    from first Some False have compiled: "re_compile re (pattern_of t) = None"
      by (auto simp: extract_thinking_from_response_def Let_def split: option.splits)
    from cond Some False
    consider (keep) "include_in_response t = Some True"
      | (nomatch) "re_search re (pattern_of t) (ex_response a) = None"
      by auto
    then show ?thesis
    proof cases
      case keep
      with first Some False have same: "ex_response a = y"
        by (auto simp: extract_thinking_from_response_def Let_def
              split: option.splits re_group.splits)
      with first show ?thesis by auto
    next
      case nomatch
      with Some False compiled show ?thesis
        by (simp add: extract_thinking_from_response_def Let_def)
    qed
  qed
qed

text \<open>
  C3 (amended). For every input text. The client's extractor \<open>process_claude_response\<close>
  returns a text without an opening or without a closing tag unchanged and, when the first
  opening tag ends before the first closing tag starts, removes exactly the span from the
  start of that opening tag to the end of that closing tag. Applied to its own output it
  returns the output unchanged whenever the output no longer contains both tags, and
  changes it when the output still holds an opening tag that ends before its first
  closing tag starts. For \<open>extract_thinking_from_response\<close> and every thinking
  configuration: applied to the response text of a pass that returned, it returns that
  text unchanged whenever the configuration is absent, is disabled, retains the segment,
  or its pattern finds no match in that text.
\<close>

theorem thinking_extraction_second_pass:
  "(\<not> (str_in ''<thinking>'' x \<and> str_in ''</thinking>'' x) \<longrightarrow> process_claude_response x = x)
   \<and> (str_find x ''<thinking>'' = Some i \<and> str_find x ''</thinking>'' = Some j
        \<and> i + length ''<thinking>'' \<le> j
      \<longrightarrow> process_claude_response x = take i x @ drop (j + length ''</thinking>'') x)
   \<and> (\<not> (str_in ''<thinking>'' (process_claude_response x)
          \<and> str_in ''</thinking>'' (process_claude_response x))
      \<longrightarrow> process_claude_response (process_claude_response x) = process_claude_response x)
   \<and> (str_find (process_claude_response x) ''<thinking>'' = Some i'
        \<and> str_find (process_claude_response x) ''</thinking>'' = Some j'
        \<and> i' + length ''<thinking>'' \<le> j'
      \<longrightarrow> process_claude_response (process_claude_response x) \<noteq> process_claude_response x)
   \<and> (extract_thinking_from_response re y cfg = Inr a
        \<and> (cfg = None \<or> enabled (the cfg) = Some False
             \<or> include_in_response (the cfg) = Some True
             \<or> re_search re (pattern_of (the cfg)) (ex_response a) = None)
      \<longrightarrow> (\<exists>b. extract_thinking_from_response re (ex_response a) cfg = Inr b
                \<and> ex_response b = ex_response a))"
proof (intro conjI impI)
  assume "\<not> (str_in ''<thinking>'' x \<and> str_in ''</thinking>'' x)"
  then show "process_claude_response x = x"
    by (rule process_claude_response_clean)
next
  assume "str_find x ''<thinking>'' = Some i \<and> str_find x ''</thinking>'' = Some j
        \<and> i + length ''<thinking>'' \<le> j"
  then show "process_claude_response x = take i x @ drop (j + length ''</thinking>'') x"
    using process_claude_response_cut by blast
next
  assume "\<not> (str_in ''<thinking>'' (process_claude_response x)
          \<and> str_in ''</thinking>'' (process_claude_response x))"
  then show "process_claude_response (process_claude_response x) = process_claude_response x"
    by (rule process_claude_response_clean)
next
  assume "str_find (process_claude_response x) ''<thinking>'' = Some i'
        \<and> str_find (process_claude_response x) ''</thinking>'' = Some j'
        \<and> i' + length ''<thinking>'' \<le> j'"
  then have "length (process_claude_response (process_claude_response x))
               < length (process_claude_response x)"
    using process_claude_response_shortens by blast
  then show "process_claude_response (process_claude_response x) \<noteq> process_claude_response x"
    by auto
next
  assume "extract_thinking_from_response re y cfg = Inr a
        \<and> (cfg = None \<or> enabled (the cfg) = Some False
             \<or> include_in_response (the cfg) = Some True
             \<or> re_search re (pattern_of (the cfg)) (ex_response a) = None)"
  then show "\<exists>b. extract_thinking_from_response re (ex_response a) cfg = Inr b
                \<and> ex_response b = ex_response a"
    using extract_thinking_second_pass by blast
qed

lemma process_claude_response_scenario:
  "process_claude_response ''<thinking>reasoning</thinking>Paris is the capital.''
     = ''Paris is the capital.''"
  by (simp add: process_claude_response_def str_in_def)

lemma process_claude_response_three_segments:
  "process_claude_response ''<thinking>a</thinking>x<thinking>b</thinking>y<thinking>c</thinking>z''
     = ''x<thinking>b</thinking>y<thinking>c</thinking>z''"
  by (simp add: process_claude_response_def str_in_def)

lemma pattern_of_ex_cfg: "pattern_of ex_cfg = ''<thinking>(.*?)</thinking>''"
  by (simp add: pattern_of_def ex_cfg_def)

lemmas extract_eval = extract_thinking_from_response_def pattern_of_ex_cfg delim_re_def
  ex_cfg_def match_at_def py_strip_def whitespace_def

lemma extract_thinking_scenario:
  "extract_thinking_from_response (delim_re ''<thinking>'' ''</thinking>'')
       ''<thinking>reasoning</thinking>Paris is the capital.'' (Some ex_cfg)
     = Inr \<lparr>ex_thinking = ''reasoning'', ex_response = ''Paris is the capital.''\<rparr>"
  by (simp add: extract_eval)

text \<open>
  A text without tags; the third scenario, with one segment, for both extractors (the
  second pass changes nothing); and a text with three segments, where the second pass of
  the client's extractor removes the next one.
\<close>

theorem thinking_extraction_second_pass_witness:
  "process_claude_response ''Paris'' = ''Paris''
   \<and> process_claude_response ''<thinking>reasoning</thinking>Paris is the capital.''
       = ''Paris is the capital.''
   \<and> process_claude_response
         (process_claude_response ''<thinking>reasoning</thinking>Paris is the capital.'')
       = process_claude_response ''<thinking>reasoning</thinking>Paris is the capital.''
   \<and> process_claude_response (process_claude_response
         ''<thinking>a</thinking>x<thinking>b</thinking>y<thinking>c</thinking>z'')
       \<noteq> process_claude_response
           ''<thinking>a</thinking>x<thinking>b</thinking>y<thinking>c</thinking>z''
   \<and> (\<exists>b. extract_thinking_from_response (delim_re ''<thinking>'' ''</thinking>'')
              ''Paris is the capital.'' (Some ex_cfg) = Inr b
           \<and> ex_response b = ''Paris is the capital.'')"
proof -
  have none: "\<not> (str_in ''<thinking>'' ''Paris'' \<and> str_in ''</thinking>'' ''Paris'')"
    by (simp add: str_in_def)
  have ordered:
    "str_find ''<thinking>reasoning</thinking>Paris is the capital.'' ''<thinking>'' = Some 0
     \<and> str_find ''<thinking>reasoning</thinking>Paris is the capital.'' ''</thinking>'' = Some 19
     \<and> 0 + length ''<thinking>'' \<le> (19::nat)"
    by simp
  have clean:
    "\<not> (str_in ''<thinking>''
           (process_claude_response ''<thinking>reasoning</thinking>Paris is the capital.'')
        \<and> str_in ''</thinking>''
           (process_claude_response ''<thinking>reasoning</thinking>Paris is the capital.''))"
    by (simp add: process_claude_response_scenario str_in_def)
  have left:
    "str_find (process_claude_response
        ''<thinking>a</thinking>x<thinking>b</thinking>y<thinking>c</thinking>z'') ''<thinking>''
       = Some 1
     \<and> str_find (process_claude_response
        ''<thinking>a</thinking>x<thinking>b</thinking>y<thinking>c</thinking>z'') ''</thinking>''
       = Some 12
     \<and> 1 + length ''<thinking>'' \<le> (12::nat)"
    by (simp add: process_claude_response_three_segments)
  have v2b: "re_search (delim_re ''<thinking>'' ''</thinking>'') (pattern_of ex_cfg)
               ''Paris is the capital.'' = None"
    by (simp add: delim_re_def match_at_def)
  have v2: "extract_thinking_from_response (delim_re ''<thinking>'' ''</thinking>'')
       ''<thinking>reasoning</thinking>Paris is the capital.'' (Some ex_cfg)
     = Inr \<lparr>ex_thinking = ''reasoning'', ex_response = ''Paris is the capital.''\<rparr>
     \<and> (Some ex_cfg = None \<or> enabled (the (Some ex_cfg)) = Some False
             \<or> include_in_response (the (Some ex_cfg)) = Some True
             \<or> re_search (delim_re ''<thinking>'' ''</thinking>'') (pattern_of (the (Some ex_cfg)))
                  (ex_response \<lparr>ex_thinking = ''reasoning'',
                                 ex_response = ''Paris is the capital.''\<rparr>) = None)"
    using extract_thinking_scenario v2b by simp
  from thinking_extraction_second_pass[where x = "''Paris''"] none
  have a: "process_claude_response ''Paris'' = ''Paris''"
    by blast
  from thinking_extraction_second_pass[
      where x = "''<thinking>reasoning</thinking>Paris is the capital.''" and i = 0 and j = 19]
    ordered
  have b: "process_claude_response ''<thinking>reasoning</thinking>Paris is the capital.''
       = take 0 ''<thinking>reasoning</thinking>Paris is the capital.''
         @ drop (19 + length ''</thinking>'')
             ''<thinking>reasoning</thinking>Paris is the capital.''"
    by blast
  from thinking_extraction_second_pass[
      where x = "''<thinking>reasoning</thinking>Paris is the capital.''"] clean
  have c: "process_claude_response
         (process_claude_response ''<thinking>reasoning</thinking>Paris is the capital.'')
       = process_claude_response ''<thinking>reasoning</thinking>Paris is the capital.''"
    by blast
  from thinking_extraction_second_pass[
      where x = "''<thinking>a</thinking>x<thinking>b</thinking>y<thinking>c</thinking>z''"
        and i' = 1 and j' = 12] left
  have d: "process_claude_response (process_claude_response
         ''<thinking>a</thinking>x<thinking>b</thinking>y<thinking>c</thinking>z'')
       \<noteq> process_claude_response
           ''<thinking>a</thinking>x<thinking>b</thinking>y<thinking>c</thinking>z''"
    by blast
  from thinking_extraction_second_pass[
      where re = "delim_re ''<thinking>'' ''</thinking>''"
        and y = "''<thinking>reasoning</thinking>Paris is the capital.''"
        and cfg = "Some ex_cfg"
        and a = "\<lparr>ex_thinking = ''reasoning'', ex_response = ''Paris is the capital.''\<rparr>"] v2
  have e: "\<exists>b. extract_thinking_from_response (delim_re ''<thinking>'' ''</thinking>'')
              (ex_response \<lparr>ex_thinking = ''reasoning'',
                             ex_response = ''Paris is the capital.''\<rparr>) (Some ex_cfg) = Inr b
           \<and> ex_response b = ex_response \<lparr>ex_thinking = ''reasoning'',
                                           ex_response = ''Paris is the capital.''\<rparr>"
    by blast
  from a b c d e show ?thesis by simp
qed

text \<open>
  C3, as stated, fails for both extractors. The client's extractor, on a text with two
  segments, leaves the second segment, which a second pass removes. The extraction of
  claude\_compat\_v2.py, with the tag pair as template, removes the segment inside
  \<open><thin<thinking>x</thinking>king>y</thinking>\<close>; what is left closes up to a new
  segment, which a second pass removes.
\<close>

theorem thinking_extraction_not_idempotent:
  "process_claude_response
       (process_claude_response ''<thinking>a</thinking><thinking>b</thinking>'')
     \<noteq> process_claude_response ''<thinking>a</thinking><thinking>b</thinking>''
   \<and> pattern_of ex_cfg = ''<thinking>(.*?)</thinking>''
   \<and> extract_thinking_from_response (delim_re ''<thinking>'' ''</thinking>'')
         ''<thin<thinking>x</thinking>king>y</thinking>'' (Some ex_cfg)
       = Inr \<lparr>ex_thinking = ''x'', ex_response = ''<thinking>y</thinking>''\<rparr>
   \<and> extract_thinking_from_response (delim_re ''<thinking>'' ''</thinking>'')
         ''<thinking>y</thinking>'' (Some ex_cfg)
       = Inr \<lparr>ex_thinking = ''y'', ex_response = []\<rparr>"
proof -
  have a: "process_claude_response
       (process_claude_response ''<thinking>a</thinking><thinking>b</thinking>'')
     \<noteq> process_claude_response ''<thinking>a</thinking><thinking>b</thinking>''"
    by (simp add: process_claude_response_def str_in_def)
  have b: "extract_thinking_from_response (delim_re ''<thinking>'' ''</thinking>'')
         ''<thin<thinking>x</thinking>king>y</thinking>'' (Some ex_cfg)
       = Inr \<lparr>ex_thinking = ''x'', ex_response = ''<thinking>y</thinking>''\<rparr>"
    by (simp add: extract_eval)
  have c: "extract_thinking_from_response (delim_re ''<thinking>'' ''</thinking>'')
         ''<thinking>y</thinking>'' (Some ex_cfg)
       = Inr \<lparr>ex_thinking = ''y'', ex_response = []\<rparr>"
    by (simp add: extract_eval)
  from a b c pattern_of_ex_cfg show ?thesis by simp
qed

section \<open>Aliasing of the stored history\<close>

text \<open>
  C10. For a session that is present and not expired, \<open>list_messages\<close> returns the
  address of the session's own list; after the call the stored history is the old one
  with every legacy role replaced, so no turn carries the role \<open>assistant\<close>; and
  whatever the caller then does to the returned list (any function \<open>f\<close> applied to its
  content) is what the store holds for the session.
\<close>

theorem get_messages_returns_store_list:
  assumes present: "sessions mgr sid = Some s"
    and live: "now2 \<le> now1 + real_of_int (expiry_minutes mgr * 60)"
    and call: "get_messages mgr h sid now1 now2 = (r, mgr', h')"
  shows "r = messages s
       \<and> session_history mgr' h' sid = Some (map normalize_role (cells h r))
       \<and> (\<forall>m \<in> set (the (session_history mgr' h' sid)). role m \<noteq> ''assistant'')
       \<and> (\<forall>f. session_history mgr' (h'\<lparr>cells := (cells h')(r := f (cells h' r))\<rparr>) sid
                = Some (f (cells h' r)))"
proof -
  from get_messages_live[OF present live, of h] call
  have r: "r = messages s"
    and mgr': "mgr' = mgr\<lparr>sessions := (sessions mgr)(sid \<mapsto> s\<lparr>last_accessed := now1\<rparr>)\<rparr>"
    and h': "h' = h\<lparr>cells := (cells h)(messages s := map normalize_role (cells h (messages s)))\<rparr>"
    by simp_all
  have hist: "session_history mgr' h' sid = Some (map normalize_role (cells h r))"
    by (simp add: session_history_def mgr' h' r)
  have "\<forall>m \<in> set (the (session_history mgr' h' sid)). role m \<noteq> ''assistant''"
    by (simp add: hist normalize_role_not_assistant)
  moreover have "\<forall>f. session_history mgr' (h'\<lparr>cells := (cells h')(r := f (cells h' r))\<rparr>) sid
                = Some (f (cells h' r))"
    by (simp add: session_history_def mgr' r)
  ultimately show ?thesis using r hist by blast
qed

text \<open>
  On the example store: the list returned is the one at address 0, the legacy turn is
  normalized in the store, and a turn appended by the caller appears in the stored history.
\<close>

theorem get_messages_returns_store_list_witness:
  "fst ex_listed = 0
   \<and> session_history (fst (snd ex_listed)) (snd (snd ex_listed)) ''s1''
        = Some [\<lparr>role = ''bot'', content = ''old''\<rparr>]
   \<and> session_history (fst (snd ex_listed))
        (list_append (snd (snd ex_listed)) (fst ex_listed) \<lparr>role = ''user'', content = ''hi''\<rparr>) ''s1''
        = Some [\<lparr>role = ''bot'', content = ''old''\<rparr>, \<lparr>role = ''user'', content = ''hi''\<rparr>]"
proof -
  have present: "sessions ex_mgr ''s1'' = Some \<lparr>messages = 0, created_at = 0, last_accessed = 0\<rparr>"
    by (simp add: ex_mgr_def)
  have live: "(10::real) \<le> 10 + real_of_int (expiry_minutes ex_mgr * 60)"
    by (simp add: ex_mgr_def)
  have call: "get_messages ex_mgr ex_heap ''s1'' 10 10
                  = (fst ex_listed, fst (snd ex_listed), snd (snd ex_listed))"
    by (simp add: ex_listed_def)
  note inst = get_messages_returns_store_list[OF present live call]
  from inst have r: "fst ex_listed = 0" by simp
  from inst have hist: "session_history (fst (snd ex_listed)) (snd (snd ex_listed)) ''s1''
        = Some (map normalize_role (cells ex_heap (fst ex_listed)))" by blast
  from inst have allf: "\<forall>f. session_history (fst (snd ex_listed))
        ((snd (snd ex_listed))\<lparr>cells := (cells (snd (snd ex_listed)))(fst ex_listed :=
            f (cells (snd (snd ex_listed)) (fst ex_listed)))\<rparr>) ''s1''
        = Some (f (cells (snd (snd ex_listed)) (fst ex_listed)))"
    by (elim conjE)
  from allf[rule_format, of "\<lambda>xs. xs @ [\<lparr>role = ''user'', content = ''hi''\<rparr>]"]
  have app: "session_history (fst (snd ex_listed))
        (list_append (snd (snd ex_listed)) (fst ex_listed) \<lparr>role = ''user'', content = ''hi''\<rparr>) ''s1''
        = Some (cells (snd (snd ex_listed)) (fst ex_listed) @ [\<lparr>role = ''user'', content = ''hi''\<rparr>])"
    by (simp add: list_append_def)
  have c: "cells (snd (snd ex_listed)) (fst ex_listed) = [\<lparr>role = ''bot'', content = ''old''\<rparr>]"
    by (simp add: ex_listed_eval)
  have d: "map normalize_role (cells ex_heap (fst ex_listed)) = [\<lparr>role = ''bot'', content = ''old''\<rparr>]"
    by (simp add: r ex_heap_def normalize_role_def)
  from r hist app c d show ?thesis by simp
qed

section \<open>Vendor-family classification\<close>

lemma is_claude_loop_iff:
  "is_claude_loop reg n \<longleftrightarrow>
     (\<exists>f \<in> set reg. str_in (py_lower f) (py_lower n) \<or> str_in (py_lower n) (py_lower f))"
  by (induction reg) auto

lemma is_claude_model_spec: "is_claude_model n \<longleftrightarrow> spec_match_either claude_models n"
  by (simp add: is_claude_model_def is_claude_loop_iff spec_match_either_def str_in_sublist)

lemma CLAUDE_MODELS_lower: "\<forall>f \<in> set CLAUDE_MODELS. py_lower f = f"
  by (simp add: CLAUDE_MODELS_def lower_eval)

lemma is_claude_model_v2_spec:
  "is_claude_model_v2 n \<longleftrightarrow> spec_match_fragment_in_name CLAUDE_MODELS n"
  using CLAUDE_MODELS_lower
  by (auto simp: is_claude_model_v2_def spec_match_fragment_in_name_def list_ex_iff str_in_sublist)

lemma is_claude_model_scenario:
  "is_claude_model ''claude-3-sonnet'' \<and> \<not> is_claude_model ''gpt-4o''"
  by (simp add: is_claude_model_def claude_models_def str_in_def lower_eval)

lemma is_claude_model_v2_scenario:
  "is_claude_model_v2 ''claude-3-sonnet'' \<and> \<not> is_claude_model_v2 ''gpt-4o''"
  by (simp add: is_claude_model_v2_def CLAUDE_MODELS_def str_in_def lower_eval)

text \<open>
  C8 (amended). The classifier of the client (poe\_client/claude\_compat.py) is the
  case-insensitive substring match against its registry in either direction. The
  classifier of claude\_compat\_v2.py matches in one direction only: a registry fragment
  contained in the lowered bot name. Both classify \<open>claude-3-sonnet\<close> as a match and
  \<open>gpt-4o\<close> as none.
\<close>

theorem vendor_family_classification:
  "(is_claude_model n \<longleftrightarrow> spec_match_either claude_models n)
   \<and> (is_claude_model_v2 n \<longleftrightarrow> spec_match_fragment_in_name CLAUDE_MODELS n)
   \<and> is_claude_model ''claude-3-sonnet'' \<and> \<not> is_claude_model ''gpt-4o''
   \<and> is_claude_model_v2 ''claude-3-sonnet'' \<and> \<not> is_claude_model_v2 ''gpt-4o''"
  using is_claude_model_spec is_claude_model_v2_spec is_claude_model_scenario
    is_claude_model_v2_scenario by blast

text \<open>The two characterizations at names that match and names that do not.\<close>

theorem vendor_family_classification_witness:
  "spec_match_either claude_models ''CLAUDE-3-opus''
   \<and> \<not> spec_match_either claude_models ''Gemini-Pro''
   \<and> spec_match_fragment_in_name CLAUDE_MODELS ''Claude-3.7-Sonnet''
   \<and> \<not> spec_match_fragment_in_name CLAUDE_MODELS ''clau''"
proof -
  have a: "is_claude_model ''CLAUDE-3-opus''"
    by (simp add: is_claude_model_def claude_models_def str_in_def lower_eval)
  have b: "\<not> is_claude_model ''Gemini-Pro''"
    by (simp add: is_claude_model_def claude_models_def str_in_def lower_eval)
  have c: "is_claude_model_v2 ''Claude-3.7-Sonnet''"
    by (simp add: is_claude_model_v2_def CLAUDE_MODELS_def str_in_def lower_eval)
  have d: "\<not> is_claude_model_v2 ''clau''"
    by (simp add: is_claude_model_v2_def CLAUDE_MODELS_def str_in_def lower_eval)
  from a b c d vendor_family_classification[of "''CLAUDE-3-opus''"]
    vendor_family_classification[of "''Gemini-Pro''"]
    vendor_family_classification[of "''Claude-3.7-Sonnet''"]
    vendor_family_classification[of "''clau''"]
  show ?thesis by simp
qed

text \<open>
  C8, as stated, fails on the classifier of claude\_compat\_v2.py: the name \<open>clau\<close> is
  contained in the registry fragment \<open>claude\<close>, so the match in either direction holds,
  and the classifier answers no.
\<close>

theorem is_claude_model_v2_one_direction:
  "\<not> (is_claude_model_v2 ''clau'' \<longleftrightarrow> spec_match_either CLAUDE_MODELS ''clau'')"
proof -
  have a: "\<not> is_claude_model_v2 ''clau''"
    by (simp add: is_claude_model_v2_def CLAUDE_MODELS_def str_in_def lower_eval)
  have "str_in (py_lower ''clau'') (py_lower ''claude'')"
    by (simp add: str_in_def lower_eval)
  then have "sublist (py_lower ''clau'') (py_lower ''claude'')"
    by (simp only: str_in_sublist)
  then have "spec_match_either CLAUDE_MODELS ''clau''"
    unfolding spec_match_either_def CLAUDE_MODELS_def by (meson list.set_intros(1))
  with a show ?thesis by simp
qed

section \<open>The fallback handler\<close>

text \<open>
  The fallback handler is called at most once, and exactly when one is supplied, the
  error text matches a keyword and the model name is in the vendor family.
\<close>

lemma handle_claude_error_v2_calls:
  "snd (handle_claude_error_v2 e fallback prompt model_name thinking) =
     (case fallback of
        None \<Rightarrow> []
      | Some fh \<Rightarrow> if is_thinking_error e \<and> is_claude_model_v2 model_name
                   then [(prompt, disabled_thinking, fh prompt disabled_thinking)] else [])"
  by (simp add: handle_claude_error_v2_def Let_def split: option.splits sum.splits)

text \<open>The function raises only what the fallback raised and its handler does not catch.\<close>

lemma handle_claude_error_v2_raises:
  assumes "fst (handle_claude_error_v2 e fallback prompt model_name thinking) = Inl x"
  shows "\<not> is_Exception x
       \<and> (\<exists>fh. fallback = Some fh \<and> fh prompt disabled_thinking = Inl x)
       \<and> is_thinking_error e \<and> is_claude_model_v2 model_name"
  using assms
  by (auto simp add: handle_claude_error_v2_def Let_def
        split: option.splits sum.splits if_splits)

text \<open>
  C7 (amended). Whenever the primary call has failed with an error that matches a keyword
  and the supplied fallback callable, which is called when the model name is in the
  vendor family, itself raises an exception that derives from \<open>Exception\<close>, the handler
  returns the structured result with \<open>fallback_used\<close> and \<open>fallback_failed\<close> both true,
  an empty text, and a message giving the original (lowered) error text and the text of
  the fallback's exception; it has called the fallback once and does not raise. An
  exception of the fallback that derives from \<open>BaseException\<close> only is not caught: the
  handler raises it. When the error matches no keyword or the model name is outside the
  vendor family, the fallback is not called and the result has \<open>fallback_used\<close> false.
\<close>

theorem handle_claude_error_v2_fallback_terminal:
  "(is_thinking_error e \<and> is_claude_model_v2 model_name
      \<and> fh prompt disabled_thinking = Inl fallback_error \<and> is_Exception fallback_error
     \<longrightarrow> handle_claude_error_v2 e (Some fh) prompt model_name thinking
           = (Inr \<lparr>h_text = [], h_error = True,
                   h_error_message = ''Thinking protocol error: '' @ py_lower (str_exn e)
                                       @ ''. Fallback also failed: '' @ str_exn fallback_error,
                   h_fallback_used = True, h_fallback_failed = Some True\<rparr>,
              [(prompt, disabled_thinking, Inl fallback_error)]))
   \<and> (is_thinking_error e \<and> is_claude_model_v2 model_name
      \<and> fh prompt disabled_thinking = Inl fallback_error \<and> \<not> is_Exception fallback_error
     \<longrightarrow> handle_claude_error_v2 e (Some fh) prompt model_name thinking
           = (Inl fallback_error, [(prompt, disabled_thinking, Inl fallback_error)]))
   \<and> (\<not> (is_thinking_error e \<and> is_claude_model_v2 model_name)
     \<longrightarrow> handle_claude_error_v2 e (Some fh) prompt model_name thinking
           = (Inr \<lparr>h_text = [], h_error = True, h_error_message = ''Error: '' @ str_exn e,
                   h_fallback_used = False, h_fallback_failed = None\<rparr>, []))"
  by (simp add: handle_claude_error_v2_def Let_def)

lemma is_thinking_error_template: "is_thinking_error (Exn PoeApiError ''Invalid thinking template'')"
  by (simp add: is_thinking_error_def thinking_related_errors_def str_in_def lower_eval)

lemma is_claude_model_v2_sonnet: "is_claude_model_v2 ''claude-3-sonnet''"
  by (simp add: is_claude_model_v2_def CLAUDE_MODELS_def str_in_def lower_eval)

lemma not_claude_v2_gpt_4o: "\<not> is_claude_model_v2 ''gpt-4o''"
  by (simp add: is_claude_model_v2_def CLAUDE_MODELS_def str_in_def lower_eval)

text \<open>
  A template error on a vendor model with a fallback that times out, the same with a
  fallback that is cancelled, and the same error on a model outside the vendor family.
\<close>

theorem handle_claude_error_v2_fallback_terminal_witness:
  "handle_claude_error_v2 (Exn PoeApiError ''Invalid thinking template'')
       (Some (\<lambda>p t. Inl (Exn (OtherError ''TimeoutError'') ''timed out'')))
       ''hi'' ''claude-3-sonnet'' None
     = (Inr \<lparr>h_text = [], h_error = True,
             h_error_message = ''Thinking protocol error: invalid thinking template. Fallback also failed: timed out'',
             h_fallback_used = True, h_fallback_failed = Some True\<rparr>,
        [(''hi'', disabled_thinking, Inl (Exn (OtherError ''TimeoutError'') ''timed out''))])
   \<and> handle_claude_error_v2 (Exn PoeApiError ''Invalid thinking template'')
       (Some (\<lambda>p t. Inl (Exn (BaseOnly ''CancelledError'') [])))
       ''hi'' ''claude-3-sonnet'' None
     = (Inl (Exn (BaseOnly ''CancelledError'') []),
        [(''hi'', disabled_thinking, Inl (Exn (BaseOnly ''CancelledError'') []))])
   \<and> handle_claude_error_v2 (Exn PoeApiError ''Invalid thinking template'')
       (Some (\<lambda>p t. Inl (Exn (OtherError ''TimeoutError'') ''timed out'')))
       ''hi'' ''gpt-4o'' None
     = (Inr \<lparr>h_text = [], h_error = True, h_error_message = ''Error: Invalid thinking template'',
             h_fallback_used = False, h_fallback_failed = None\<rparr>, [])"
proof -
  have h1: "is_thinking_error (Exn PoeApiError ''Invalid thinking template'')
      \<and> is_claude_model_v2 ''claude-3-sonnet''
      \<and> (\<lambda>p t. Inl (Exn (OtherError ''TimeoutError'') ''timed out'')) ''hi'' disabled_thinking
          = Inl (Exn (OtherError ''TimeoutError'') ''timed out'')
      \<and> is_Exception (Exn (OtherError ''TimeoutError'') ''timed out'')"
    by (simp add: is_thinking_error_template is_claude_model_v2_sonnet)
  have h2: "is_thinking_error (Exn PoeApiError ''Invalid thinking template'')
      \<and> is_claude_model_v2 ''claude-3-sonnet''
      \<and> (\<lambda>p t. Inl (Exn (BaseOnly ''CancelledError'') [])) ''hi'' disabled_thinking
          = Inl (Exn (BaseOnly ''CancelledError'') [])
      \<and> \<not> is_Exception (Exn (BaseOnly ''CancelledError'') [])"
    by (simp add: is_thinking_error_template is_claude_model_v2_sonnet)
  have h3: "\<not> (is_thinking_error (Exn PoeApiError ''Invalid thinking template'')
               \<and> is_claude_model_v2 ''gpt-4o'')"
    by (simp add: not_claude_v2_gpt_4o)
  from handle_claude_error_v2_fallback_terminal[
      where e = "Exn PoeApiError ''Invalid thinking template''"
        and model_name = "''claude-3-sonnet''" and prompt = "''hi''" and thinking = None
        and fh = "\<lambda>p t. Inl (Exn (OtherError ''TimeoutError'') ''timed out'')"
        and fallback_error = "Exn (OtherError ''TimeoutError'') ''timed out''"] h1
  have a: "handle_claude_error_v2 (Exn PoeApiError ''Invalid thinking template'')
       (Some (\<lambda>p t. Inl (Exn (OtherError ''TimeoutError'') ''timed out'')))
       ''hi'' ''claude-3-sonnet'' None
     = (Inr \<lparr>h_text = [], h_error = True,
             h_error_message = ''Thinking protocol error: ''
                @ py_lower (str_exn (Exn PoeApiError ''Invalid thinking template''))
                @ ''. Fallback also failed: ''
                @ str_exn (Exn (OtherError ''TimeoutError'') ''timed out''),
             h_fallback_used = True, h_fallback_failed = Some True\<rparr>,
        [(''hi'', disabled_thinking, Inl (Exn (OtherError ''TimeoutError'') ''timed out''))])"
    by blast
  from handle_claude_error_v2_fallback_terminal[
      where e = "Exn PoeApiError ''Invalid thinking template''"
        and model_name = "''claude-3-sonnet''" and prompt = "''hi''" and thinking = None
        and fh = "\<lambda>p t. Inl (Exn (BaseOnly ''CancelledError'') [])"
        and fallback_error = "Exn (BaseOnly ''CancelledError'') []"] h2
  have b: "handle_claude_error_v2 (Exn PoeApiError ''Invalid thinking template'')
       (Some (\<lambda>p t. Inl (Exn (BaseOnly ''CancelledError'') [])))
       ''hi'' ''claude-3-sonnet'' None
     = (Inl (Exn (BaseOnly ''CancelledError'') []),
        [(''hi'', disabled_thinking, Inl (Exn (BaseOnly ''CancelledError'') []))])"
    by blast
  from handle_claude_error_v2_fallback_terminal[
      where e = "Exn PoeApiError ''Invalid thinking template''"
        and model_name = "''gpt-4o''" and prompt = "''hi''" and thinking = None
        and fh = "\<lambda>p t. Inl (Exn (OtherError ''TimeoutError'') ''timed out'')"] h3
  have c: "handle_claude_error_v2 (Exn PoeApiError ''Invalid thinking template'')
       (Some (\<lambda>p t. Inl (Exn (OtherError ''TimeoutError'') ''timed out'')))
       ''hi'' ''gpt-4o'' None
     = (Inr \<lparr>h_text = [], h_error = True,
             h_error_message = ''Error: '' @ str_exn (Exn PoeApiError ''Invalid thinking template''),
             h_fallback_used = False, h_fallback_failed = None\<rparr>, [])"
    by blast
  from a b c show ?thesis by (simp add: lower_eval)
qed

text \<open>
  C7, as stated, fails: the primary error matches, the model is a vendor model, and the
  fallback is cancelled while it is awaited. The cancellation derives from
  \<open>BaseException\<close> only, the handler does not catch it, and the function raises it
  instead of returning a result.
\<close>

theorem handle_claude_error_v2_raises_cancellation:
  "is_thinking_error (Exn PoeApiError ''Invalid thinking template'')
   \<and> fst (handle_claude_error_v2 (Exn PoeApiError ''Invalid thinking template'')
            (Some (\<lambda>p t. Inl (Exn (BaseOnly ''CancelledError'') [])))
            ''hi'' ''claude-3-sonnet'' None)
       = Inl (Exn (BaseOnly ''CancelledError'') [])
   \<and> snd (handle_claude_error_v2 (Exn PoeApiError ''Invalid thinking template'')
            (Some (\<lambda>p t. Inl (Exn (BaseOnly ''CancelledError'') [])))
            ''hi'' ''claude-3-sonnet'' None)
       = [(''hi'', disabled_thinking, Inl (Exn (BaseOnly ''CancelledError'') []))]"
  by (simp add: handle_claude_error_v2_def is_thinking_error_template is_claude_model_v2_sonnet)

section \<open>The model invocation orchestrator\<close>

lemma stream_loop_plain: "stream_loop False None acc chunks fin = (acc @ concat chunks, fin)"
  by (induction chunks arbitrary: acc) simp_all

lemma heap_after_query_model:
  "heap_after (query_model client api h bot_name prompt (Some r) handler thinking)
     = list_append h r \<lparr>role = ''user'', content = prompt\<rparr>"
  by (simp add: query_model_def Let_def split: prod.splits)


lemma api_calls_query_model:
  "api_calls (query_model client api h bot_name prompt messages_arg handler thinking)
     = [(history_sent h messages_arg prompt, bot_name)]"
  by (simp add: query_model_def history_sent_def new_list_def list_append_def Let_def
        split: prod.splits option.splits)

lemma outcome_query_model:
  "outcome (query_model client api h bot_name prompt messages_arg handler thinking) =
     (let proc = (is_claude_model bot_name \<and> claude_compatible client);
          (chunks, fin) = api (history_sent h messages_arg prompt) bot_name
      in case finish_query proc bot_name (stream_loop proc handler [] chunks fin) of
           Inl e \<Rightarrow> Inl (outer_handler e)
         | Inr res \<Rightarrow> Inr res)"
  by (simp add: query_model_def history_sent_def new_list_def list_append_def Let_def
        split: prod.splits option.splits)

lemma outcome_query_model_with_file:
  assumes "fs file_path = Some node" and "read_bytes node = Inr decoded"
  shows "outcome (query_model_with_file client api fs h bot_name prompt file_path messages_arg
                    handler thinking) =
     (let proc = (is_claude_model bot_name \<and> claude_compatible client);
          (chunks, fin) = api (history_sent h messages_arg
                                 (combine_prompt prompt file_path decoded)) bot_name
      in case finish_query proc bot_name (stream_loop proc handler [] chunks fin) of
           Inl e \<Rightarrow> Inl (outer_handler_with_file e)
         | Inr res \<Rightarrow> Inr res)"
  using assms
  by (simp add: query_model_with_file_def history_sent_def new_list_def list_append_def Let_def
        split: prod.splits option.splits)

lemma api_calls_query_model_with_file:
  assumes "fs file_path = Some node" and "read_bytes node = Inr decoded"
  shows "api_calls (query_model_with_file client api fs h bot_name prompt file_path messages_arg
                    handler thinking)
           = [(history_sent h messages_arg (combine_prompt prompt file_path decoded), bot_name)]"
  using assms
  by (simp add: query_model_with_file_def history_sent_def new_list_def list_append_def Let_def
        split: prod.splits option.splits)




lemma not_claude_GPT_4o: "\<not> is_claude_model ''GPT-4o''"
  by (simp add: is_claude_model_def claude_models_def str_in_def lower_eval)

lemma extract_thinking_disabled:
  assumes "thinking = None \<or> enabled (the thinking) = Some False"
  shows "extract_thinking_from_response re response thinking
           = Inr \<lparr>ex_thinking = [], ex_response = response\<rparr>"
  using assms by (auto simp: extract_thinking_from_response_def split: option.splits)

lemma process_v2_disabled:
  assumes "thinking = None \<or> enabled (the thinking) = Some False"
  shows "process_claude_response_v2 re response thinking
           = Inr \<lparr>pr_text = response, pr_thinking = []\<rparr>"
  using assms by (auto simp: process_claude_response_v2_def)

text \<open>Without post-processing, an exception that ends the stream leaves the inner \<open>try\<close>.\<close>

lemma finish_query_plain:
  "finish_query False bot_name (acc, fin) =
     (case fin of
        None \<Rightarrow> Inr \<lparr>q_text = acc, q_bot = bot_name, q_error = None, q_error_message = None\<rparr>
      | Some e \<Rightarrow> Inl e)"
  by (simp add: finish_query_def split: option.splits)

lemma query_model_stream:
  assumes "\<not> (is_claude_model bot_name \<and> claude_compatible client)"
    and "api (history_sent h messages_arg prompt) bot_name = (chunks, fin)"
    and "stream_loop False handler [] chunks fin = (acc, fin')"
  shows "outcome (query_model client api h bot_name prompt messages_arg handler thinking) =
           (case fin' of
              None \<Rightarrow> Inr \<lparr>q_text = acc, q_bot = bot_name,
                            q_error = None, q_error_message = None\<rparr>
            | Some e \<Rightarrow> Inl (outer_handler e))"
proof -
  from assms(1) have "(is_claude_model bot_name \<and> claude_compatible client) = False"
    by blast
  then have off: "(is_claude_model bot_name \<and> claude_compatible client) \<equiv> False"
    by (rule eq_reflection)
  show ?thesis
    unfolding outcome_query_model Let_def off
    by (simp add: assms(2,3) finish_query_plain split: option.splits)
qed

lemma query_model_with_file_stream:
  assumes "\<not> (is_claude_model bot_name \<and> claude_compatible client)"
    and "fs file_path = Some node" and "read_bytes node = Inr decoded"
    and "api (history_sent h messages_arg (combine_prompt prompt file_path decoded)) bot_name
           = (chunks, fin)"
    and "stream_loop False handler [] chunks fin = (acc, fin')"
  shows "outcome (query_model_with_file client api fs h bot_name prompt file_path messages_arg
                    handler thinking) =
           (case fin' of
              None \<Rightarrow> Inr \<lparr>q_text = acc, q_bot = bot_name,
                            q_error = None, q_error_message = None\<rparr>
            | Some e \<Rightarrow> Inl (outer_handler_with_file e))"
proof -
  from assms(1) have "(is_claude_model bot_name \<and> claude_compatible client) = False"
    by blast
  then have off: "(is_claude_model bot_name \<and> claude_compatible client) \<equiv> False"
    by (rule eq_reflection)
  show ?thesis
    unfolding outcome_query_model_with_file[where fs = fs and file_path = file_path,
        OF assms(2,3)] Let_def off
    by (simp add: assms(4,5) finish_query_plain split: option.splits)
qed

lemma query_model_plain:
  assumes "\<not> (is_claude_model bot_name \<and> claude_compatible client)"
    and "api (history_sent h messages_arg prompt) bot_name = (chunks, fin)"
  shows "outcome (query_model client api h bot_name prompt messages_arg None thinking) =
           (case fin of
              None \<Rightarrow> Inr \<lparr>q_text = concat chunks, q_bot = bot_name,
                            q_error = None, q_error_message = None\<rparr>
            | Some e \<Rightarrow> Inl (outer_handler e))"
  using query_model_stream[where api = api and h = h and messages_arg = messages_arg
      and prompt = prompt and chunks = chunks and fin = fin and handler = None
      and acc = "concat chunks" and fin' = fin and thinking = thinking, OF assms]
  by (simp add: stream_loop_plain)

text \<open>
  C4 (amended). In the orchestrator the post-processing is switched by the bot and by the
  client's compatibility toggle, not by the thinking configuration: whenever the bot is
  not in the vendor family or the toggle is off, the text returned is the concatenation
  of the streamed chunks, unchanged, whatever the thinking configuration. In
  claude\_compat\_v2.py, extraction and processing return the input text unchanged
  whenever the thinking configuration is absent or has \<open>enabled\<close> false.
\<close>

theorem post_processing_noop:
  "(\<not> (is_claude_model bot_name \<and> claude_compatible client)
      \<and> api (history_sent h messages_arg prompt) bot_name = (chunks, None)
     \<longrightarrow> outcome (query_model client api h bot_name prompt messages_arg None thinking)
           = Inr \<lparr>q_text = concat chunks, q_bot = bot_name,
                  q_error = None, q_error_message = None\<rparr>)
   \<and> (cfg = None \<or> enabled (the cfg) = Some False
     \<longrightarrow> extract_thinking_from_response re response cfg
           = Inr \<lparr>ex_thinking = [], ex_response = response\<rparr>
         \<and> process_claude_response_v2 re response cfg
           = Inr \<lparr>pr_text = response, pr_thinking = []\<rparr>)"
proof (intro conjI impI)
  assume "\<not> (is_claude_model bot_name \<and> claude_compatible client)
      \<and> api (history_sent h messages_arg prompt) bot_name = (chunks, None)"
  then show "outcome (query_model client api h bot_name prompt messages_arg None thinking)
           = Inr \<lparr>q_text = concat chunks, q_bot = bot_name,
                  q_error = None, q_error_message = None\<rparr>"
    using query_model_plain[of bot_name client api h messages_arg prompt chunks None thinking]
    by simp
next
  assume "cfg = None \<or> enabled (the cfg) = Some False"
  then show "extract_thinking_from_response re response cfg
           = Inr \<lparr>ex_thinking = [], ex_response = response\<rparr>"
    by (rule extract_thinking_disabled)
next
  assume "cfg = None \<or> enabled (the cfg) = Some False"
  then show "process_claude_response_v2 re response cfg
           = Inr \<lparr>pr_text = response, pr_thinking = []\<rparr>"
    by (rule process_v2_disabled)
qed

text \<open>
  A bot outside the vendor family, and the two functions of claude\_compat\_v2.py with the
  configuration disabled and absent.
\<close>

theorem post_processing_noop_witness:
  "outcome (query_model ex_client (\<lambda>msgs b. ([''<thinking>a</thinking>'', ''b''], None)) ex_heap
              ''GPT-4o'' ''q'' None None None)
     = Inr \<lparr>q_text = ''<thinking>a</thinking>b'', q_bot = ''GPT-4o'',
            q_error = None, q_error_message = None\<rparr>
   \<and> extract_thinking_from_response ex_re ''<thinking>a</thinking>b'' (Some disabled_thinking)
     = Inr \<lparr>ex_thinking = [], ex_response = ''<thinking>a</thinking>b''\<rparr>
   \<and> process_claude_response_v2 ex_re ''<thinking>a</thinking>b'' None
     = Inr \<lparr>pr_text = ''<thinking>a</thinking>b'', pr_thinking = []\<rparr>"
proof -
  have h1: "\<not> (is_claude_model ''GPT-4o'' \<and> claude_compatible ex_client)
      \<and> (\<lambda>msgs b. ([''<thinking>a</thinking>'', ''b''], None)) (history_sent ex_heap None ''q'') ''GPT-4o''
          = ([''<thinking>a</thinking>'', ''b''], None)"
    by (simp add: not_claude_GPT_4o)
  have h2: "Some disabled_thinking = None \<or> enabled (the (Some disabled_thinking)) = Some False"
    by (simp add: disabled_thinking_def)
  have h3: "(None :: thinking_cfg option) = None \<or> enabled (the None) = Some False"
    by simp
  from post_processing_noop[of "''GPT-4o''" ex_client "\<lambda>msgs b. ([''<thinking>a</thinking>'', ''b''], None)"
      ex_heap None "''q''" "[''<thinking>a</thinking>'', ''b'']" None "Some disabled_thinking" ex_re
      "''<thinking>a</thinking>b''"] h1 h2
  have a: "outcome (query_model ex_client (\<lambda>msgs b. ([''<thinking>a</thinking>'', ''b''], None)) ex_heap
              ''GPT-4o'' ''q'' None None None)
     = Inr \<lparr>q_text = concat [''<thinking>a</thinking>'', ''b''], q_bot = ''GPT-4o'',
            q_error = None, q_error_message = None\<rparr>"
    and b: "extract_thinking_from_response ex_re ''<thinking>a</thinking>b'' (Some disabled_thinking)
     = Inr \<lparr>ex_thinking = [], ex_response = ''<thinking>a</thinking>b''\<rparr>"
    by blast+
  from post_processing_noop[of "''GPT-4o''" ex_client "\<lambda>msgs b. ([''<thinking>a</thinking>'', ''b''], None)"
      ex_heap None "''q''" "[''<thinking>a</thinking>'', ''b'']" None None ex_re
      "''<thinking>a</thinking>b''"] h3
  have c: "process_claude_response_v2 ex_re ''<thinking>a</thinking>b'' None
     = Inr \<lparr>pr_text = ''<thinking>a</thinking>b'', pr_thinking = []\<rparr>"
    by blast
  from a b c show ?thesis by simp
qed

text \<open>
  C4, as stated, fails: for a vendor bot with the compatibility toggle on and no thinking
  configuration at all, the segment is still stripped from the response.
\<close>

theorem thinking_absent_still_processed:
  "outcome (query_model ex_client (\<lambda>msgs b. ([''<thinking>a</thinking>b''], None)) ex_heap
              ''Claude-3-Sonnet-7k'' ''q'' None None None)
     = Inr \<lparr>q_text = ''b'', q_bot = ''Claude-3-Sonnet-7k'', q_error = None, q_error_message = None\<rparr>
   \<and> ''b'' \<noteq> ''<thinking>a</thinking>b''"
  by (simp add: outcome_query_model history_sent_def ex_client_def
        is_claude_model_def claude_models_def str_in_def lower_eval finish_query_def
        process_claude_response_def Let_def)

text \<open>
  C5 (amended). For a bot outside the vendor family (or with the compatibility toggle
  off) and an error that ends the stream of the external call. An error that derives
  from \<open>Exception\<close> reaches the caller wrapped: \<open>query_model\<close> raises \<open>PoeApiError\<close>
  with the original message after the prefix \<open>Error querying Poe model: \<close>, and
  \<open>query_model_with_file\<close> raises \<open>PoeApiError\<close> with the original message after the
  prefix \<open>Error querying Poe model with file: \<close>, except for a \<open>FileHandlingError\<close>,
  which it raises again unchanged. An error that derives from \<open>BaseException\<close> only
  (a cancellation, a keyboard interrupt) is raised again unchanged by both.
\<close>

theorem external_error_wrapped:
  assumes "\<not> (is_claude_model bot_name \<and> claude_compatible client)"
  shows "(api (history_sent h messages_arg prompt) bot_name = (chunks, fin)
          \<and> stream_loop False handler [] chunks fin = (acc, Some e)
          \<longrightarrow> outcome (query_model client api h bot_name prompt messages_arg handler thinking)
                = Inl (if is_Exception e
                       then Exn PoeApiError (''Error querying Poe model: '' @ str_exn e)
                       else e))
       \<and> (fs file_path = Some node \<and> read_bytes node = Inr decoded
          \<and> api (history_sent h messages_arg (combine_prompt prompt file_path decoded)) bot_name
              = (chunks, fin)
          \<and> stream_loop False handler [] chunks fin = (acc, Some e)
          \<longrightarrow> outcome (query_model_with_file client api fs h bot_name prompt file_path
                         messages_arg handler thinking)
                = Inl (if exn_class e = FileHandlingError \<or> \<not> is_Exception e then e
                       else Exn PoeApiError
                              (''Error querying Poe model with file: '' @ str_exn e)))"
proof (intro conjI impI)
  assume "api (history_sent h messages_arg prompt) bot_name = (chunks, fin)
          \<and> stream_loop False handler [] chunks fin = (acc, Some e)"
  then have "outcome (query_model client api h bot_name prompt messages_arg handler thinking)
               = Inl (outer_handler e)"
    using query_model_stream[where api = api and h = h and messages_arg = messages_arg
        and prompt = prompt and chunks = chunks and fin = fin and handler = handler
        and acc = acc and fin' = "Some e" and thinking = thinking, OF assms]
    by simp
  then show "outcome (query_model client api h bot_name prompt messages_arg handler thinking)
                = Inl (if is_Exception e
                       then Exn PoeApiError (''Error querying Poe model: '' @ str_exn e)
                       else e)"
    by (simp add: outer_handler_def)
next
  assume a: "fs file_path = Some node \<and> read_bytes node = Inr decoded
          \<and> api (history_sent h messages_arg (combine_prompt prompt file_path decoded)) bot_name
              = (chunks, fin)
          \<and> stream_loop False handler [] chunks fin = (acc, Some e)"
  then have "outcome (query_model_with_file client api fs h bot_name prompt file_path
                         messages_arg handler thinking)
               = Inl (outer_handler_with_file e)"
    using query_model_with_file_stream[where fs = fs and file_path = file_path
        and node = node and decoded = decoded and api = api and h = h
        and messages_arg = messages_arg and prompt = prompt and chunks = chunks and fin = fin
        and handler = handler and acc = acc and fin' = "Some e" and thinking = thinking,
        OF assms]
    by simp
  then show "outcome (query_model_with_file client api fs h bot_name prompt file_path
                         messages_arg handler thinking)
                = Inl (if exn_class e = FileHandlingError \<or> \<not> is_Exception e then e
                       else Exn PoeApiError
                              (''Error querying Poe model with file: '' @ str_exn e))"
    by (simp add: outer_handler_with_file_def)
qed

text \<open>
  C5, as stated, fails: a connection error of the external call on a bot outside the
  vendor family reaches the caller with another class and another message.
\<close>

theorem external_error_not_reraised_unchanged:
  "outcome (query_model ex_client
              (\<lambda>msgs b. ([], Some (Exn (OtherError ''ConnectionError'') ''connection reset'')))
              ex_heap ''GPT-4o'' ''hi'' None None None)
     = Inl (Exn PoeApiError ''Error querying Poe model: connection reset'')
   \<and> Exn PoeApiError ''Error querying Poe model: connection reset''
       \<noteq> Exn (OtherError ''ConnectionError'') ''connection reset''"
  by (simp add: outcome_query_model history_sent_def not_claude_GPT_4o finish_query_def
        outer_handler_def)

text \<open>
  A stream that times out after one chunk, in both queries, and a stream that is
  cancelled after one chunk.
\<close>

theorem external_error_wrapped_witness:
  "outcome (query_model ex_client
              (\<lambda>msgs b. ([''par''], Some (Exn (OtherError ''TimeoutError'') ''timed out'')))
              ex_heap ''GPT-4o'' ''hi'' (Some 0) None None)
     = Inl (Exn PoeApiError ''Error querying Poe model: timed out'')
   \<and> outcome (query_model_with_file ex_client
              (\<lambda>msgs b. ([''par''], Some (Exn (OtherError ''TimeoutError'') ''timed out'')))
              ex_fs ex_heap ''GPT-4o'' ''sum'' ''/tmp/a.txt'' (Some 0) None None)
     = Inl (Exn PoeApiError ''Error querying Poe model with file: timed out'')
   \<and> outcome (query_model ex_client
              (\<lambda>msgs b. ([''par''], Some (Exn (BaseOnly ''CancelledError'') [])))
              ex_heap ''GPT-4o'' ''hi'' (Some 0) None None)
     = Inl (Exn (BaseOnly ''CancelledError'') [])"
proof -
  have h0: "\<not> (is_claude_model ''GPT-4o'' \<and> claude_compatible ex_client)"
    by (simp add: not_claude_GPT_4o)
  have h1: "(\<lambda>msgs b. ([''par''], Some (Exn (OtherError ''TimeoutError'') ''timed out'')))
              (history_sent ex_heap (Some 0) ''hi'') ''GPT-4o''
            = ([''par''], Some (Exn (OtherError ''TimeoutError'') ''timed out''))
      \<and> stream_loop False None [] [''par''] (Some (Exn (OtherError ''TimeoutError'') ''timed out''))
            = (''par'', Some (Exn (OtherError ''TimeoutError'') ''timed out''))"
    by simp
  have h2: "ex_fs ''/tmp/a.txt'' = Some \<lparr>size_bytes = 5, read_bytes = Inr (Some ''hello'')\<rparr>
      \<and> read_bytes \<lparr>size_bytes = 5, read_bytes = Inr (Some ''hello'')\<rparr> = Inr (Some ''hello'')
      \<and> (\<lambda>msgs b. ([''par''], Some (Exn (OtherError ''TimeoutError'') ''timed out'')))
              (history_sent ex_heap (Some 0) (combine_prompt ''sum'' ''/tmp/a.txt'' (Some ''hello'')))
              ''GPT-4o''
            = ([''par''], Some (Exn (OtherError ''TimeoutError'') ''timed out''))
      \<and> stream_loop False None [] [''par''] (Some (Exn (OtherError ''TimeoutError'') ''timed out''))
            = (''par'', Some (Exn (OtherError ''TimeoutError'') ''timed out''))"
    by (simp add: ex_fs_def)
  have h3: "(\<lambda>msgs b. ([''par''], Some (Exn (BaseOnly ''CancelledError'') [])))
              (history_sent ex_heap (Some 0) ''hi'') ''GPT-4o''
            = ([''par''], Some (Exn (BaseOnly ''CancelledError'') []))
      \<and> stream_loop False None [] [''par''] (Some (Exn (BaseOnly ''CancelledError'') []))
            = (''par'', Some (Exn (BaseOnly ''CancelledError'') []))"
    by simp
  note inst = external_error_wrapped[OF h0,
      where h = ex_heap and messages_arg = "Some 0" and chunks = "[''par'']"
        and handler = None and acc = "''par''"
        and fs = ex_fs and file_path = "''/tmp/a.txt''"
        and node = "\<lparr>size_bytes = 5, read_bytes = Inr (Some ''hello'')\<rparr>"
        and decoded = "Some ''hello''" and thinking = None]
  from inst[where prompt = "''hi''"
      and api = "\<lambda>msgs b. ([''par''], Some (Exn (OtherError ''TimeoutError'') ''timed out''))"
      and fin = "Some (Exn (OtherError ''TimeoutError'') ''timed out'')"
      and e = "Exn (OtherError ''TimeoutError'') ''timed out''"] h1
  have a: "outcome (query_model ex_client
              (\<lambda>msgs b. ([''par''], Some (Exn (OtherError ''TimeoutError'') ''timed out'')))
              ex_heap ''GPT-4o'' ''hi'' (Some 0) None None)
     = Inl (if is_Exception (Exn (OtherError ''TimeoutError'') ''timed out'')
            then Exn PoeApiError (''Error querying Poe model: ''
                   @ str_exn (Exn (OtherError ''TimeoutError'') ''timed out''))
            else Exn (OtherError ''TimeoutError'') ''timed out'')"
    by blast
  from inst[where prompt = "''sum''"
      and api = "\<lambda>msgs b. ([''par''], Some (Exn (OtherError ''TimeoutError'') ''timed out''))"
      and fin = "Some (Exn (OtherError ''TimeoutError'') ''timed out'')"
      and e = "Exn (OtherError ''TimeoutError'') ''timed out''"] h2
  have b: "outcome (query_model_with_file ex_client
              (\<lambda>msgs b. ([''par''], Some (Exn (OtherError ''TimeoutError'') ''timed out'')))
              ex_fs ex_heap ''GPT-4o'' ''sum'' ''/tmp/a.txt'' (Some 0) None None)
     = Inl (if exn_class (Exn (OtherError ''TimeoutError'') ''timed out'') = FileHandlingError
               \<or> \<not> is_Exception (Exn (OtherError ''TimeoutError'') ''timed out'')
            then Exn (OtherError ''TimeoutError'') ''timed out''
            else Exn PoeApiError (''Error querying Poe model with file: ''
                   @ str_exn (Exn (OtherError ''TimeoutError'') ''timed out'')))"
    by blast
  from inst[where prompt = "''hi''"
      and api = "\<lambda>msgs b. ([''par''], Some (Exn (BaseOnly ''CancelledError'') []))"
      and fin = "Some (Exn (BaseOnly ''CancelledError'') [])"
      and e = "Exn (BaseOnly ''CancelledError'') []"] h3
  have c: "outcome (query_model ex_client
              (\<lambda>msgs b. ([''par''], Some (Exn (BaseOnly ''CancelledError'') [])))
              ex_heap ''GPT-4o'' ''hi'' (Some 0) None None)
     = Inl (if is_Exception (Exn (BaseOnly ''CancelledError'') [])
            then Exn PoeApiError (''Error querying Poe model: ''
                   @ str_exn (Exn (BaseOnly ''CancelledError'') []))
            else Exn (BaseOnly ''CancelledError'') [])"
    by blast
  from a b c show ?thesis by simp
qed

section \<open>Attachments\<close>

text \<open>
  C9 (amended). For every query whose attachment path does not exist,
  \<open>query_model_with_file\<close> raises \<open>FileHandlingError\<close> and makes no call to the
  external API. The size of the attachment is not checked by the query: the check is
  \<open>validate_file\<close>, which raises \<open>ValueError\<close> for a file larger than the maximum (and
  \<open>FileNotFoundError\<close> for a missing path).
\<close>

theorem missing_attachment_fails_fast:
  "(fs file_path = None \<longrightarrow>
      outcome (query_model_with_file client api fs h bot_name prompt file_path messages_arg
                 handler thinking)
        = Inl (Exn FileHandlingError (''File not found: '' @ file_path))
      \<and> api_calls (query_model_with_file client api fs h bot_name prompt file_path messages_arg
                 handler thinking) = []
      \<and> validate_file fmt_too_large guess_type fs file_path max_size_mb
        = Inl (Exn FileNotFoundError (msg_missing @ file_path)))
   \<and> (fs file_path = Some node
        \<and> real (size_bytes node) / (1024 * 1024) > real_of_int max_size_mb \<longrightarrow>
      validate_file fmt_too_large guess_type fs file_path max_size_mb
        = Inl (Exn ValueError
                 (fmt_too_large (real (size_bytes node) / (1024 * 1024)) max_size_mb)))"
  by (simp add: query_model_with_file_def validate_file_def Let_def)

text \<open>A path that does not exist, and the file of 20 MiB against a maximum of 10 MB.\<close>

theorem missing_attachment_fails_fast_witness:
  "outcome (query_model_with_file ex_client (\<lambda>msgs b. ([''ok''], None)) ex_fs ex_heap ''GPT-4o''
              ''sum'' ''/tmp/none.txt'' None None None)
     = Inl (Exn FileHandlingError ''File not found: /tmp/none.txt'')
   \<and> api_calls (query_model_with_file ex_client (\<lambda>msgs b. ([''ok''], None)) ex_fs ex_heap
              ''GPT-4o'' ''sum'' ''/tmp/none.txt'' None None None) = []
   \<and> validate_file (\<lambda>size_mb max_mb. ''too large'') (\<lambda>path. None) ex_fs ''/tmp/big.bin'' 10
     = Inl (Exn ValueError ''too large'')"
proof -
  have h1: "ex_fs ''/tmp/none.txt'' = None"
    by (simp add: ex_fs_def)
  have h2: "ex_fs ''/tmp/big.bin'' = Some \<lparr>size_bytes = 20971520, read_bytes = Inr None\<rparr>
     \<and> real (size_bytes \<lparr>size_bytes = 20971520, read_bytes = Inr None\<rparr>) / (1024 * 1024)
          > real_of_int 10"
    by (simp add: ex_fs_def)
  from missing_attachment_fails_fast[where fs = ex_fs and file_path = "''/tmp/none.txt''"
      and client = ex_client and api = "\<lambda>msgs b. ([''ok''], None)" and h = ex_heap
      and bot_name = "''GPT-4o''" and prompt = "''sum''" and messages_arg = None
      and handler = None and thinking = None] h1
  have a: "outcome (query_model_with_file ex_client (\<lambda>msgs b. ([''ok''], None)) ex_fs ex_heap ''GPT-4o''
              ''sum'' ''/tmp/none.txt'' None None None)
     = Inl (Exn FileHandlingError (''File not found: '' @ ''/tmp/none.txt''))
   \<and> api_calls (query_model_with_file ex_client (\<lambda>msgs b. ([''ok''], None)) ex_fs ex_heap
              ''GPT-4o'' ''sum'' ''/tmp/none.txt'' None None None) = []"
    by blast
  from missing_attachment_fails_fast[where fs = ex_fs and file_path = "''/tmp/big.bin''"
      and node = "\<lparr>size_bytes = 20971520, read_bytes = Inr None\<rparr>" and max_size_mb = 10
      and fmt_too_large = "\<lambda>size_mb max_mb. ''too large''" and guess_type = "\<lambda>path. None"] h2
  have b: "validate_file (\<lambda>size_mb max_mb. ''too large'') (\<lambda>path. None) ex_fs ''/tmp/big.bin'' 10
     = Inl (Exn ValueError ''too large'')"
    by blast
  from a b show ?thesis by simp
qed

text \<open>
  C9, as stated, fails: an attachment of 20 MiB, twice the default maximum, is read and
  sent to the external API, and the query returns normally.
\<close>

theorem oversized_attachment_is_sent:
  "real (size_bytes (the (ex_fs ''/tmp/big.bin''))) / (1024 * 1024) > real_of_int 10
   \<and> outcome (query_model_with_file ex_client (\<lambda>msgs b. ([''ok''], None)) ex_fs ex_heap
                ''GPT-4o'' ''sum'' ''/tmp/big.bin'' None None None)
       = Inr \<lparr>q_text = ''ok'', q_bot = ''GPT-4o'', q_error = None, q_error_message = None\<rparr>
   \<and> api_calls (query_model_with_file ex_client (\<lambda>msgs b. ([''ok''], None)) ex_fs ex_heap
                ''GPT-4o'' ''sum'' ''/tmp/big.bin'' None None None)
       = [([\<lparr>role = ''user'', content = combine_prompt ''sum'' ''/tmp/big.bin'' None\<rparr>], ''GPT-4o'')]"
proof -
  have f: "ex_fs ''/tmp/big.bin'' = Some \<lparr>size_bytes = 20971520, read_bytes = Inr None\<rparr>"
    by (simp add: ex_fs_def)
  have r: "read_bytes \<lparr>size_bytes = 20971520, read_bytes = Inr None\<rparr> = Inr None"
    by simp
  have a: "real (size_bytes (the (ex_fs ''/tmp/big.bin''))) / (1024 * 1024) > real_of_int 10"
    by (simp add: f)
  have b: "outcome (query_model_with_file ex_client (\<lambda>msgs b. ([''ok''], None)) ex_fs ex_heap
                ''GPT-4o'' ''sum'' ''/tmp/big.bin'' None None None)
       = Inr \<lparr>q_text = ''ok'', q_bot = ''GPT-4o'', q_error = None, q_error_message = None\<rparr>"
    by (simp add: outcome_query_model_with_file[where fs = ex_fs and file_path = "''/tmp/big.bin''", OF f r] not_claude_GPT_4o finish_query_def)
  have c: "api_calls (query_model_with_file ex_client (\<lambda>msgs b. ([''ok''], None)) ex_fs ex_heap
                ''GPT-4o'' ''sum'' ''/tmp/big.bin'' None None None)
       = [([\<lparr>role = ''user'', content = combine_prompt ''sum'' ''/tmp/big.bin'' None\<rparr>], ''GPT-4o'')]"
    by (simp add: api_calls_query_model_with_file[where fs = ex_fs and file_path = "''/tmp/big.bin''", OF f r] history_sent_def)
  from a b c show ?thesis by simp
qed

section \<open>The calls of the transport layer\<close>

text \<open>
  \<open>ask_poe\<close> lists the messages of the session, passes the list to \<open>query_model\<close> and
  then calls \<open>update_session\<close>. The list passed is the store's own, so the user turn
  appended by the query is already in the stored history when the update appends the
  pair: the history then holds the user turn twice.
\<close>

lemma list_query_update_duplicates_user_turn:
  "session_history
     (fst (snd (update_session (fst (snd ex_listed))
        (heap_after (query_model ex_client (\<lambda>msgs b. ([''Paris''], None)) (snd (snd ex_listed))
                       ''GPT-4o'' ''hi'' (Some (fst ex_listed)) None None))
        ''s1'' ''hi'' ''Paris'' 11 11 11)))
     (snd (snd (update_session (fst (snd ex_listed))
        (heap_after (query_model ex_client (\<lambda>msgs b. ([''Paris''], None)) (snd (snd ex_listed))
                       ''GPT-4o'' ''hi'' (Some (fst ex_listed)) None None))
        ''s1'' ''hi'' ''Paris'' 11 11 11)))
     ''s1''
   = Some [\<lparr>role = ''bot'', content = ''old''\<rparr>, \<lparr>role = ''user'', content = ''hi''\<rparr>,
           \<lparr>role = ''user'', content = ''hi''\<rparr>, \<lparr>role = ''bot'', content = ''Paris''\<rparr>]"
  by (simp add: ex_listed_eval heap_after_query_model list_append_def update_session_def
        get_session_def is_session_expired_def ex_mgr_def ex_heap_def session_history_def Let_def)

end

